theory Spec2Isabelle
  imports Main "HOL-Library.Word"
begin

unbundle bit_operations_syntax

section \<open>Python values used by main.py\<close>

text \<open>
  A Python \<open>str\<close> is modelled as a \<open>string\<close>; every character outside ASCII (the
  pictographs of the messages) stands as its UTF-8 bytes. The program only concatenates,
  prints and writes its strings, so the encoding never shows. A Python \<open>bytes\<close> value is
  a list of 8-bit words, a Python \<open>int\<close> is an \<open>int\<close>.
\<close>

type_synonym byte = "8 word"
type_synonym bytes = "byte list"

text \<open>
  The exception classes the handlers of main.py tell apart: instances of \<open>Exception\<close>
  (with the text \<open>str(error)\<close> prints), and the two that are a \<open>BaseException\<close> only and
  pass every \<open>except Exception\<close>: \<open>SystemExit\<close> (with its exit code) and
  \<open>asyncio.CancelledError\<close>, which an awaiting coroutine receives when its task is
  cancelled.
\<close>

datatype exc = Exception string | SystemExit int | CancelledError

subsection \<open>\<open>str(n)\<close>, \<open>zfill\<close> and the \<open>%0wd\<close> formats\<close>

definition digit_char :: "nat \<Rightarrow> char" where
  "digit_char d = char_of (48 + d)"

function str_nat :: "nat \<Rightarrow> string" where
  "str_nat n = (if n < 10 then [digit_char n] else str_nat (n div 10) @ [digit_char (n mod 10)])"
  by pat_completeness auto
termination
  by (relation "measure id") auto

declare str_nat.simps [simp del]

definition str_int :: "int \<Rightarrow> string" where
  "str_int i = (if i < 0 then CHR ''-'' # str_nat (nat (- i)) else str_nat (nat i))"

text \<open>
  \<open>s.zfill(width)\<close>: zeros on the left up to \<open>width\<close> characters, after a leading
  sign; a string that is long enough is returned as it is.
\<close>

definition zfill :: "nat \<Rightarrow> string \<Rightarrow> string" where
  "zfill width s =
     (if width \<le> length s then s
      else (case s of
              [] \<Rightarrow> replicate width (CHR ''0'')
            | c # r \<Rightarrow>
                if c = CHR ''+'' \<or> c = CHR ''-''
                then c # replicate (width - length s) (CHR ''0'') @ r
                else replicate (width - length s) (CHR ''0'') @ s))"

text \<open>\<open>"%0wd" % n\<close> for a field \<open>n\<close> of a datetime (never negative).\<close>

definition fmt_d :: "nat \<Rightarrow> nat \<Rightarrow> string" where
  "fmt_d width n = replicate (width - length (str_nat n)) (CHR ''0'') @ str_nat n"

text \<open>\<open>sep.join(xs)\<close>, \<open>s.split(sep)\<close> and \<open>s.replace(old, new)\<close> for one-character
  \<open>sep\<close>, \<open>old\<close> and \<open>new\<close>.\<close>

fun join :: "string \<Rightarrow> string list \<Rightarrow> string" where
  "join sep [] = []"
| "join sep [x] = x"
| "join sep (x # y # ys) = x @ sep @ join sep (y # ys)"

fun split_on :: "char \<Rightarrow> string \<Rightarrow> string list" where
  "split_on c [] = [[]]"
| "split_on c (x # xs) =
     (if x = c then [] # split_on c xs
      else (case split_on c xs of
              [] \<Rightarrow> [[x]]
            | y # ys \<Rightarrow> (x # y) # ys))"

definition replace_char :: "char \<Rightarrow> char \<Rightarrow> string \<Rightarrow> string" where
  "replace_char old new s = map (\<lambda>c. if c = old then new else c) s"

subsection \<open>\<open>datetime.now().isoformat()\<close>\<close>

record datetime =
  year :: nat
  month :: nat
  day :: nat
  hour :: nat
  minute :: nat
  second :: nat
  microsecond :: nat

text \<open>The ranges \<open>datetime\<close> keeps its fields in.\<close>

definition valid_datetime :: "datetime \<Rightarrow> bool" where
  "valid_datetime d \<longleftrightarrow>
     1 \<le> year d \<and> year d \<le> 9999 \<and> 1 \<le> month d \<and> month d \<le> 12 \<and>
     1 \<le> day d \<and> day d \<le> 31 \<and> hour d < 24 \<and> minute d < 60 \<and> second d < 60 \<and>
     microsecond d < 1000000"

text \<open>
  \<open>isoformat()\<close> of a naive datetime: \<open>YYYY-MM-DDTHH:MM:SS\<close>, followed by
  \<open>.ffffff\<close> when the microsecond is not 0.
\<close>

definition isoformat :: "datetime \<Rightarrow> string" where
  "isoformat d =
     fmt_d 4 (year d) @ ''-'' @ fmt_d 2 (month d) @ ''-'' @ fmt_d 2 (day d) @ ''T'' @
     fmt_d 2 (hour d) @ '':'' @ fmt_d 2 (minute d) @ '':'' @ fmt_d 2 (second d) @
     (if microsecond d = 0 then [] else ''.'' @ fmt_d 6 (microsecond d))"

subsection \<open>\<open>base64.b64decode\<close>\<close>

text \<open>
  The standard library's decoder, as \<open>binascii.a2b_base64\<close> runs it when
  \<open>validate\<close> is false (CPython 3.11 and later). \<open>table_a2b_base64\<close> gives the six-bit
  value of a character of the alphabet; every other character but \<open>=\<close> is skipped. The
  loop keeps the position in the current group of four characters (\<open>quad_pos\<close>), the bits
  left over from the last character (\<open>leftchar\<close>) and the count of pad characters seen in
  a row (\<open>pads\<close>); a complete pad sequence ends the input. An error is the message of the
  \<open>binascii.Error\<close> raised.
\<close>

definition table_a2b_base64 :: "char \<Rightarrow> byte option" where
  "table_a2b_base64 c =
     (let n = (of_char c :: nat) in
      if 65 \<le> n \<and> n \<le> 90 then Some (of_nat (n - 65))
      else if 97 \<le> n \<and> n \<le> 122 then Some (of_nat (n - 71))
      else if 48 \<le> n \<and> n \<le> 57 then Some (of_nat (n + 4))
      else if c = CHR ''+'' then Some 62
      else if c = CHR ''/'' then Some 63
      else None)"

fun a2b_base64 :: "string \<Rightarrow> nat \<Rightarrow> byte \<Rightarrow> nat \<Rightarrow> bytes \<Rightarrow> string + bytes" where
  "a2b_base64 [] quad_pos leftchar pads bin_data =
     (if quad_pos \<noteq> 0 then
        (if quad_pos = 1 then
           Inl (''Invalid base64-encoded string: number of data characters ('' @
                str_nat (length bin_data div 3 * 4 + 1) @
                '') cannot be 1 more than a multiple of 4'')
         else Inl ''Incorrect padding'')
      else Inr bin_data)"
| "a2b_base64 (this_ch # ascii_data) quad_pos leftchar pads bin_data =
     (if this_ch = CHR ''='' then
        (if 2 \<le> quad_pos \<and> 4 \<le> quad_pos + (pads + 1) then Inr bin_data
         else a2b_base64 ascii_data quad_pos leftchar
                (if 2 \<le> quad_pos then pads + 1 else pads) bin_data)
      else
        (case table_a2b_base64 this_ch of
           None \<Rightarrow> a2b_base64 ascii_data quad_pos leftchar pads bin_data
         | Some v \<Rightarrow>
             if quad_pos = 0 then a2b_base64 ascii_data 1 v 0 bin_data
             else if quad_pos = 1 then
               a2b_base64 ascii_data 2 (v AND 0x0f) 0
                 (bin_data @ [push_bit 2 leftchar OR drop_bit 4 v])
             else if quad_pos = 2 then
               a2b_base64 ascii_data 3 (v AND 0x03) 0
                 (bin_data @ [push_bit 4 leftchar OR drop_bit 2 v])
             else
               a2b_base64 ascii_data 0 0 0 (bin_data @ [push_bit 6 leftchar OR v])))"

text \<open>
  \<open>b64decode(s)\<close> for a \<open>str\<close>: the string is encoded as ASCII first (a \<open>ValueError\<close>
  when it has a character outside ASCII), then decoded.
\<close>

definition b64decode :: "string \<Rightarrow> exc + bytes" where
  "b64decode s =
     (if \<exists>c \<in> set s. 128 \<le> (of_char c :: nat)
      then Inl (Exception ''string argument should contain only ASCII characters'')
      else (case a2b_base64 s 0 0 0 [] of
              Inl msg \<Rightarrow> Inl (Exception msg)
            | Inr b \<Rightarrow> Inr b))"

text \<open>
  The encoder that produces the text form of an image (RFC 4648, the standard alphabet,
  padded): what a response carries when its payload arrives as base64 text.
\<close>

definition table_b2a_base64 :: string where
  "table_b2a_base64 = ''ABCDEFGHIJKLMNOPQRSTUVWXYZabcdefghijklmnopqrstuvwxyz0123456789+/''"

definition b64_char :: "byte \<Rightarrow> char" where
  "b64_char v = table_b2a_base64 ! unat (v AND 0x3f)"

fun b64encode :: "bytes \<Rightarrow> string" where
  "b64encode [] = []"
| "b64encode [a] =
     [b64_char (drop_bit 2 a), b64_char (push_bit 4 (a AND 0x03)), CHR ''='', CHR ''='']"
| "b64encode [a, b] =
     [b64_char (drop_bit 2 a), b64_char (push_bit 4 (a AND 0x03) OR drop_bit 4 b),
      b64_char (push_bit 2 (b AND 0x0f)), CHR ''='']"
| "b64encode (a # b # c # rest) =
     [b64_char (drop_bit 2 a), b64_char (push_bit 4 (a AND 0x03) OR drop_bit 4 b),
      b64_char (push_bit 2 (b AND 0x0f) OR drop_bit 6 c), b64_char (c AND 0x3f)] @
     b64encode rest"

section \<open>The world the program runs in\<close>

subsection \<open>Paths and the file system\<close>

text \<open>
  A \<open>pathlib.Path\<close> is the list of its parts, as \<open>Path.parts\<close> gives them on POSIX:
  the root first when the path is absolute, then the names between the slashes; empty
  names and \<open>.\<close> are dropped. The root is \<open>/\<close>, except that a text starting with exactly
  two slashes keeps both as its root \<open>//\<close>.
\<close>

type_synonym path = "string list"

definition Path :: "string \<Rightarrow> path" where
  "Path s =
     (if take 2 s = ''//'' \<and> take 3 s \<noteq> ''///'' then [''//'']
      else if take 1 s = ''/'' then [''/'']
      else []) @
     filter (\<lambda>p. p \<noteq> [] \<and> p \<noteq> ''.'') (split_on (CHR ''/'') s)"

text \<open>\<open>p / name\<close> for a name that holds no slash (the only use main.py makes of it).\<close>

definition joinpath :: "path \<Rightarrow> string \<Rightarrow> path" where
  "joinpath p name = p @ [name]"

text \<open>\<open>str(p)\<close>.\<close>

definition path_str :: "path \<Rightarrow> string" where
  "path_str p =
     (case p of
        [] \<Rightarrow> ''.''
      | r # ps \<Rightarrow> if r = ''/'' \<or> r = ''//'' then r @ join ''/'' ps else join ''/'' p)"

text \<open>
  A file system maps a path to what is there: a directory, a file written as text or a
  file written as bytes. The roots and the current directory (the empty relative path)
  are directories that always exist. Permissions are not modelled: creating a directory
  or opening a file fails only for the reason the tree itself gives. What can go wrong
  once a file is open (the device, the encoding of a text) is an input of the write.
\<close>

datatype node = Dir | TextFile string | BinaryFile bytes

type_synonym filesystem = "path \<rightharpoonup> node"

definition is_root :: "path \<Rightarrow> bool" where
  "is_root p \<longleftrightarrow> p = [] \<or> p = [''/''] \<or> p = [''//'']"

definition lookup :: "filesystem \<Rightarrow> path \<Rightarrow> node option" where
  "lookup f p = (if is_root p then Some Dir else f p)"

definition exists_path :: "filesystem \<Rightarrow> path \<Rightarrow> bool" where
  "exists_path f p \<longleftrightarrow> lookup f p \<noteq> None"

text \<open>
  \<open>p.mkdir(parents=True, exist_ok=True)\<close>: every missing ancestor and \<open>p\<close> itself
  become directories; the call raises (\<open>FileExistsError\<close>, \<open>NotADirectoryError\<close>) and
  changes nothing when \<open>p\<close> or an ancestor is a file. \<open>mkdir_from base rest\<close> walks the
  parts of \<open>p\<close>: \<open>base\<close> is the ancestor reached, \<open>rest\<close> the parts still to enter.
\<close>

fun mkdir_from :: "path \<Rightarrow> string list \<Rightarrow> filesystem \<Rightarrow> exc + filesystem" where
  "mkdir_from base [] f = Inr f"
| "mkdir_from base (name # rest) f =
     (let p = base @ [name] in
      case lookup f p of
        None \<Rightarrow> mkdir_from p rest (f(p \<mapsto> Dir))
      | Some Dir \<Rightarrow> mkdir_from p rest f
      | Some _ \<Rightarrow>
          Inl (Exception
                 ((if rest = [] then ''[Errno 17] File exists: ''
                   else ''[Errno 20] Not a directory: '') @
                  [CHR 0x27] @ path_str (p @ rest) @ [CHR 0x27])))"

definition mkdir_parents :: "path \<Rightarrow> filesystem \<Rightarrow> exc + filesystem" where
  "mkdir_parents p f = mkdir_from [] p f"

text \<open>
  Opening \<open>p\<close> for writing: the parent must be a directory and \<open>p\<close> must not be one;
  the file is created or replaced.
\<close>

definition can_write :: "filesystem \<Rightarrow> path \<Rightarrow> bool" where
  "can_write f p \<longleftrightarrow> p \<noteq> [] \<and> lookup f (butlast p) = Some Dir \<and> lookup f p \<noteq> Some Dir"

subsection \<open>The state and its inputs\<close>

text \<open>
  What the run does to the outside in order: a request to the image service and its
  completion (the coroutine is suspended in between), a pause, a file written.
\<close>

datatype event =
    ApiRequest int
  | ApiDone int
  | Sleep nat
  | WriteFile path

record world =
  fs :: filesystem
  stdout :: "string list"
  stderr :: "string list"
  events :: "event list"
  requests :: nat
  clock_reads :: nat

text \<open>
  The response of \<open>generate_content\<close>, down to the fields \<open>generate_image\<close> reads:
  \<open>response.candidates[0].content.parts\<close>, each optional as the client library declares
  them, and for a part its \<open>inline_data\<close>, whose \<open>data\<close> is bytes, text or missing.
\<close>

datatype payload = DataBytes bytes | DataStr string | DataNone

datatype part = Part (inline_data: "payload option")

datatype content = Content (parts: "part list option")

datatype candidate = Candidate (content: "content option")

datatype response = Response (candidates: "candidate list option")

text \<open>
  The image service answers a request with a response or with an error (a network
  failure, an API error: instances of \<open>Exception\<close>, with the text of the error).
\<close>

datatype api_outcome = ApiRaises string | ApiReturns response

text \<open>
  How the \<open>await\<close> of line 100 ends: with the answer of the service, or with the
  \<open>CancelledError\<close> thrown into the coroutine when its task is cancelled while it waits
  (that is how \<open>asyncio.run\<close> hands Ctrl-C to the main task).
\<close>

datatype awaited = Answered api_outcome | Cancelled

text \<open>
  The inputs from outside of a run that nobody interrupts and whose device takes every
  byte of a file it let the program open: the answer to the \<open>k\<close>-th request sent
  (counted from 0); the \<open>k\<close>-th reading of the local clock, which is what
  \<open>datetime.now()\<close> returns, and the real time of that reading in microseconds since the
  epoch; and whether the default text encoding of the process can encode a text.
\<close>

record env =
  api :: "nat \<Rightarrow> api_outcome"
  now :: "nat \<Rightarrow> datetime"
  instant :: "nat \<Rightarrow> int"
  encodes :: "string \<Rightarrow> bool"

text \<open>
  The settings at the top of main.py. \<open>API_KEY\<close> and \<open>OUTPUT_DIR\<close> come from
  \<open>os.getenv\<close>: \<open>None\<close> when the variable is not set. The two float settings are only
  ever formatted and passed on, so they are kept by their text.
\<close>

record config =
  OUTPUT_DIR :: "string option"
  IMAGE_COUNT :: int
  IMAGE_ASPECT_RATIO :: string
  IMAGE_SIZE :: string
  TEMPERATURE :: string
  TOP_P :: string
  SYSTEM_INSTRUCTION :: string
  API_KEY :: "string option"

text \<open>The settings as main.py has them, for the two values of the environment.\<close>

definition default_config :: "string option \<Rightarrow> string option \<Rightarrow> config" where
  "default_config output_dir api_key =
     \<lparr>OUTPUT_DIR = output_dir,
      IMAGE_COUNT = 1,
      IMAGE_ASPECT_RATIO = ''3:2'',
      IMAGE_SIZE = ''1K'',
      TEMPERATURE = ''0.2'',
      TOP_P = ''0.95'',
      SYSTEM_INSTRUCTION = ''You are a professional image creator. Generate high-quality images based on the user's request.'',
      API_KEY = api_key\<rparr>"

text \<open>\<open>not x\<close> for an optional string: true for \<open>None\<close> and for the empty string.\<close>

definition falsy :: "string option \<Rightarrow> bool" where
  "falsy x \<longleftrightarrow> x = None \<or> x = Some []"

definition print_out :: "string \<Rightarrow> world \<Rightarrow> world" where
  "print_out s w = w\<lparr>stdout := stdout w @ [s]\<rparr>"

definition print_err :: "string \<Rightarrow> world \<Rightarrow> world" where
  "print_err s w = w\<lparr>stderr := stderr w @ [s]\<rparr>"

fun print_err_lines :: "string list \<Rightarrow> world \<Rightarrow> world" where
  "print_err_lines [] w = w"
| "print_err_lines (s # ss) w = print_err_lines ss (print_err s w)"

text \<open>
  The \<open>OSError\<close> that opening \<open>p\<close> for writing raises when it cannot: \<open>p\<close> is a
  directory, or the walk to \<open>p\<close> meets a regular file (\<open>ENOTDIR\<close>), or a name on the way
  is missing.
\<close>

definition is_file :: "node option \<Rightarrow> bool" where
  "is_file x \<longleftrightarrow> (case x of None \<Rightarrow> False | Some Dir \<Rightarrow> False | Some _ \<Rightarrow> True)"

definition open_error :: "filesystem \<Rightarrow> path \<Rightarrow> exc" where
  "open_error f p =
     Exception
       ((if lookup f p = Some Dir then ''[Errno 21] Is a directory: ''
         else if list_ex (\<lambda>k. is_file (lookup f (take k p))) [1..<length p]
         then ''[Errno 20] Not a directory: ''
         else ''[Errno 2] No such file or directory: '') @
        [CHR 0x27] @ path_str p @ [CHR 0x27])"

text \<open>
  \<open>with open(p, "wb") as f: f.write(b)\<close>. Opening creates the file or empties the one
  that is there. The write then goes through, or the device fails it (\<open>fault = Some k\<close>:
  \<open>k\<close> bytes got out before the error, here a full disk); the file opened stays behind
  with what was written.
\<close>

definition device_message :: string where
  "device_message = ''[Errno 28] No space left on device''"

definition write_bytes :: "path \<Rightarrow> bytes \<Rightarrow> nat option \<Rightarrow> world \<Rightarrow> (exc + unit) \<times> world" where
  "write_bytes p b fault w =
     (if \<not> can_write (fs w) p then (Inl (open_error (fs w) p), w)
      else case fault of
             None \<Rightarrow>
               (Inr (),
                w\<lparr>fs := (fs w)(p \<mapsto> BinaryFile b), events := events w @ [WriteFile p]\<rparr>)
           | Some k \<Rightarrow>
               (Inl (Exception device_message),
                w\<lparr>fs := (fs w)(p \<mapsto> BinaryFile (take k b)),
                  events := events w @ [WriteFile p]\<rparr>))"

text \<open>
  \<open>with open(p, "w") as f: f.write(s)\<close>, in the default encoding of the process: a text
  it cannot encode raises \<open>UnicodeEncodeError\<close> at the write, after the file was opened
  and emptied.
\<close>

definition encode_message :: string where
  "encode_message = ''codec can't encode characters''"

definition write_text :: "path \<Rightarrow> string \<Rightarrow> bool \<Rightarrow> world \<Rightarrow> (exc + unit) \<times> world" where
  "write_text p s encodable w =
     (if \<not> can_write (fs w) p then (Inl (open_error (fs w) p), w)
      else if encodable
      then (Inr (), w\<lparr>fs := (fs w)(p \<mapsto> TextFile s), events := events w @ [WriteFile p]\<rparr>)
      else (Inl (Exception encode_message),
            w\<lparr>fs := (fs w)(p \<mapsto> TextFile []), events := events w @ [WriteFile p]\<rparr>))"

definition datetime_now :: "env \<Rightarrow> world \<Rightarrow> datetime \<times> world" where
  "datetime_now e w = (now e (clock_reads w), w\<lparr>clock_reads := Suc (clock_reads w)\<rparr>)"

section \<open>main.py\<close>

subsection \<open>\<open>validate_args\<close>\<close>

text \<open>The double quote, and the cross mark that starts every error line.\<close>

definition dq :: string where
  "dq = [CHR 0x22]"

definition cross_mark :: string where
  "cross_mark = [CHR 0xE2, CHR 0x9D, CHR 0x8C]"

definition api_key_message :: "string list" where
  "api_key_message =
     [cross_mark @ '' Error: GEMINI_API_KEY environment variable is not set.'',
      [],
      ''Usage:'',
      ''  Set GEMINI_API_KEY in .env file'',
      ''  uv run main.py '' @ dq @ ''your prompt here'' @ dq]"

definition output_dir_message :: "string list" where
  "output_dir_message =
     [cross_mark @ '' Error: IMAGE_OUTPUT_DIR environment variable is not set.'',
      [],
      ''Usage:'',
      ''  Set IMAGE_OUTPUT_DIR in .env file'']"

definition prompt_message :: "string list" where
  "prompt_message =
     [cross_mark @ '' Error: Image prompt is required.'',
      [],
      ''Usage:'',
      ''  uv run main.py '' @ dq @ ''your prompt here'' @ dq,
      [],
      ''Example:'',
      ''  uv run main.py '' @ dq @ ''futuristic city at sunset with neon lights'' @ dq]"

definition validate_args :: "config \<Rightarrow> string list \<Rightarrow> world \<Rightarrow> (exc + unit) \<times> world" where
  "validate_args cfg argv w =
     (if falsy (API_KEY cfg) then (Inl (SystemExit 1), print_err_lines api_key_message w)
      else if falsy (OUTPUT_DIR cfg) then (Inl (SystemExit 1), print_err_lines output_dir_message w)
      else if length argv < 2 then (Inl (SystemExit 1), print_err_lines prompt_message w)
      else (Inr (), w))"

subsection \<open>\<open>ensure_output_directory\<close> and \<open>create_timestamped_directory\<close>\<close>

definition folder_mark :: string where
  "folder_mark = [CHR 0xF0, CHR 0x9F, CHR 0x93, CHR 0x81]"

text \<open>\<open>Path(OUTPUT_DIR)\<close>: a \<open>TypeError\<close> when the setting is \<open>None\<close>.\<close>

definition output_path_of :: "config \<Rightarrow> exc + path" where
  "output_path_of cfg =
     (case OUTPUT_DIR cfg of
        None \<Rightarrow>
          Inl (Exception ''expected str, bytes or os.PathLike object, not NoneType'')
      | Some d \<Rightarrow> Inr (Path d))"

definition ensure_output_directory :: "config \<Rightarrow> world \<Rightarrow> (exc + unit) \<times> world" where
  "ensure_output_directory cfg w =
     (case output_path_of cfg of
        Inl e \<Rightarrow> (Inl e, w)
      | Inr output_path \<Rightarrow>
          if \<not> exists_path (fs w) output_path then
            (case mkdir_parents output_path (fs w) of
               Inl e \<Rightarrow> (Inl e, w)
             | Inr f' \<Rightarrow>
                 (Inr (),
                  print_out (folder_mark @ '' Created output directory: '' @ the (OUTPUT_DIR cfg))
                    (w\<lparr>fs := f'\<rparr>)))
          else (Inr (), w))"

definition session_name :: "datetime \<Rightarrow> string" where
  "session_name d =
     take 19 (replace_char (CHR ''.'') (CHR ''-'') (replace_char (CHR '':'') (CHR ''-'') (isoformat d)))"

definition create_timestamped_directory ::
  "config \<Rightarrow> env \<Rightarrow> world \<Rightarrow> (exc + path) \<times> world" where
  "create_timestamped_directory cfg e w =
     (let (t, w1) = datetime_now e w;
          timestamp = session_name t
      in case output_path_of cfg of
           Inl x \<Rightarrow> (Inl x, w1)
         | Inr output_path \<Rightarrow>
             (let session_dir = joinpath output_path timestamp
              in case mkdir_parents session_dir (fs w1) of
                   Inl x \<Rightarrow> (Inl x, w1)
                 | Inr f' \<Rightarrow> (Inr session_dir, w1\<lparr>fs := f'\<rparr>)))"

subsection \<open>\<open>generate_image\<close>\<close>

definition sq :: string where
  "sq = [CHR 0x27]"

definition nl :: string where
  "nl = [CHR 0x0A]"

definition check_mark :: string where
  "check_mark = [CHR 0xE2, CHR 0x9C, CHR 0x85]"

text \<open>
  \<open>response.candidates[0].content.parts\<close>, with the error Python raises where a field
  is \<open>None\<close> or the list of candidates is empty.
\<close>

definition response_parts :: "response \<Rightarrow> exc + part list" where
  "response_parts r =
     (case candidates r of
        None \<Rightarrow> Inl (Exception (sq @ ''NoneType'' @ sq @ '' object is not subscriptable''))
      | Some [] \<Rightarrow> Inl (Exception ''list index out of range'')
      | Some (c # _) \<Rightarrow>
          (case content c of
             None \<Rightarrow>
               Inl (Exception (sq @ ''NoneType'' @ sq @ '' object has no attribute '' @
                               sq @ ''parts'' @ sq))
           | Some ct \<Rightarrow>
               (case parts ct of
                  None \<Rightarrow> Inl (Exception (sq @ ''NoneType'' @ sq @ '' object is not iterable''))
                | Some ps \<Rightarrow> Inr ps)))"

text \<open>
  Lines 121 to 124: bytes are used as they are, anything else goes through
  \<open>base64.b64decode\<close> (a \<open>TypeError\<close> for \<open>None\<close>).
\<close>

definition image_buffer :: "payload \<Rightarrow> exc + bytes" where
  "image_buffer image_data =
     (case image_data of
        DataBytes b \<Rightarrow> Inr b
      | DataStr s \<Rightarrow> b64decode s
      | DataNone \<Rightarrow>
          Inl (Exception (''argument should be a bytes-like object or ASCII string, not '' @
                          sq @ ''NoneType'' @ sq)))"

definition image_filename :: "int \<Rightarrow> string" where
  "image_filename index = ''image-'' @ zfill 2 (str_int index) @ ''.png''"

text \<open>
  The loop of lines 116 to 133 over the parts of the response: the first part with
  inline data decides the call (its image is written and the path returned, or the error
  of decoding or writing is raised); with no such part the loop ends and line 133 raises.
\<close>

fun scan_parts ::
  "part list \<Rightarrow> int \<Rightarrow> path \<Rightarrow> nat option \<Rightarrow> world \<Rightarrow> (exc + string) \<times> world" where
  "scan_parts [] index output_path fault w =
     (Inl (Exception ''No image data in response''), w)"
| "scan_parts (p # ps) index output_path fault w =
     (case inline_data p of
        None \<Rightarrow> scan_parts ps index output_path fault w
      | Some image_data \<Rightarrow>
          (case image_buffer image_data of
             Inl x \<Rightarrow> (Inl x, w)
           | Inr buffer \<Rightarrow>
               (let filename = image_filename index;
                    filepath = joinpath output_path filename
                in case write_bytes filepath buffer fault w of
                     (Inl x, w') \<Rightarrow> (Inl x, w')
                   | (Inr _, w') \<Rightarrow>
                       (Inr (path_str filepath),
                        print_out (''   '' @ check_mark @ '' Generated: '' @ filename @ '' ('' @
                                   str_nat (length buffer) @ '' bytes)'') w'))))"

text \<open>
  The \<open>ValueError\<close> of \<open>genai.Client(api_key=API_KEY)\<close> for a key that is \<open>None\<close> or
  empty (and none that the library finds on its own).
\<close>

definition bq :: string where
  "bq = [CHR 0x60]"

definition missing_key_message :: string where
  "missing_key_message =
     ''Missing key inputs argument! To use the Google AI API, provide ('' @ bq @ ''api_key'' @
     bq @ '') arguments. To use the Google Cloud API, provide ('' @ bq @ ''vertexai'' @ bq @
     '', '' @ bq @ ''project'' @ bq @ '' & '' @ bq @ ''location'' @ bq @ '') arguments.''"

text \<open>
  The body of the \<open>try\<close>, lines 96 to 133. The client is built first (line 96), which
  needs a key and does no input or output. Line 98 prints, line 100 sends the request
  and awaits it: when the answer comes the two events stand next to each other, nothing
  else of the program runs in between; when the task is cancelled the request is out
  and the \<open>CancelledError\<close> is raised at the \<open>await\<close>. \<open>awaited\<close> is how the \<open>await\<close>
  ends and \<open>fault\<close> what the device does to the write of line 129.
\<close>

definition generate_image_try ::
  "config \<Rightarrow> awaited \<Rightarrow> nat option \<Rightarrow> string \<Rightarrow> int \<Rightarrow> path \<Rightarrow> world \<Rightarrow>
   (exc + string) \<times> world" where
  "generate_image_try cfg a fault prompt index output_path w =
     (if falsy (API_KEY cfg) then (Inl (Exception missing_key_message), w)
      else
        let w1 = print_out (''   Processing image '' @ str_int index @ ''...'') w
        in case a of
             Cancelled \<Rightarrow>
               (Inl CancelledError,
                w1\<lparr>events := events w1 @ [ApiRequest index],
                   requests := Suc (requests w1)\<rparr>)
           | Answered answer \<Rightarrow>
               (let w2 = w1\<lparr>events := events w1 @ [ApiRequest index, ApiDone index],
                            requests := Suc (requests w1)\<rparr>
                in case answer of
                     ApiRaises msg \<Rightarrow> (Inl (Exception msg), w2)
                   | ApiReturns r \<Rightarrow>
                       (case response_parts r of
                          Inl x \<Rightarrow> (Inl x, w2)
                        | Inr ps \<Rightarrow> scan_parts ps index output_path fault w2)))"

text \<open>
  \<open>try ... except Exception as error\<close>: an \<open>Exception\<close> is logged and turned into the
  result \<open>None\<close>; anything else is raised again.
\<close>

definition generate_image ::
  "config \<Rightarrow> awaited \<Rightarrow> nat option \<Rightarrow> string \<Rightarrow> int \<Rightarrow> path \<Rightarrow> world \<Rightarrow>
   (exc + string option) \<times> world" where
  "generate_image cfg a fault prompt index output_path w =
     (case generate_image_try cfg a fault prompt index output_path w of
        (Inr filepath, w') \<Rightarrow> (Inr (Some filepath), w')
      | (Inl (Exception error), w') \<Rightarrow>
          (Inr None,
           print_err (''   '' @ cross_mark @ '' Failed to generate image '' @ str_int index @
                      '': '' @ error) w')
      | (Inl (SystemExit code), w') \<Rightarrow> (Inl (SystemExit code), w')
      | (Inl CancelledError, w') \<Rightarrow> (Inl CancelledError, w'))"

subsection \<open>\<open>save_prompt_file\<close>\<close>

definition memo_mark :: string where
  "memo_mark = [CHR 0xF0, CHR 0x9F, CHR 0x93, CHR 0x9D]"

definition metadata :: "config \<Rightarrow> datetime \<Rightarrow> path \<Rightarrow> string \<Rightarrow> string list" where
  "metadata cfg t session_dir prompt =
     [''Prompt: '' @ prompt,
      ''Generated: '' @ isoformat t,
      ''Model: gemini-2.5-flash-image'',
      ''Count: '' @ str_int (IMAGE_COUNT cfg),
      ''Aspect Ratio: '' @ IMAGE_ASPECT_RATIO cfg,
      ''Image Size: '' @ IMAGE_SIZE cfg,
      ''Temperature: '' @ TEMPERATURE cfg,
      ''Top P: '' @ TOP_P cfg,
      ''Output Directory: '' @ path_str session_dir]"

definition save_prompt_file ::
  "config \<Rightarrow> env \<Rightarrow> path \<Rightarrow> string \<Rightarrow> world \<Rightarrow> (exc + unit) \<times> world" where
  "save_prompt_file cfg e session_dir prompt w =
     (let prompt_file = joinpath session_dir ''prompt.txt'';
          (t, w1) = datetime_now e w;
          content = join nl (metadata cfg t session_dir prompt)
      in case write_text prompt_file content (encodes e content) w1 of
           (Inl x, w2) \<Rightarrow> (Inl x, w2)
         | (Inr _, w2) \<Rightarrow> (Inr (), print_out (memo_mark @ '' Saved metadata to: prompt.txt'') w2))"

subsection \<open>\<open>main\<close> and the script\<close>

definition palette_mark :: string where
  "palette_mark = [CHR 0xF0, CHR 0x9F, CHR 0x8E, CHR 0xA8]"

definition numbers_mark :: string where
  "numbers_mark = [CHR 0xF0, CHR 0x9F, CHR 0x94, CHR 0xA2]"

definition ruler_mark :: string where
  "ruler_mark = [CHR 0xF0, CHR 0x9F, CHR 0x93, CHR 0x90]"

definition open_folder_mark :: string where
  "open_folder_mark = [CHR 0xF0, CHR 0x9F, CHR 0x93, CHR 0x82]"

definition rocket_mark :: string where
  "rocket_mark = [CHR 0xF0, CHR 0x9F, CHR 0x9A, CHR 0x80]"

definition sparkles_mark :: string where
  "sparkles_mark = [CHR 0xE2, CHR 0x9C, CHR 0xA8]"

definition warning_mark :: string where
  "warning_mark = [CHR 0xE2, CHR 0x9A, CHR 0xA0, CHR 0xEF, CHR 0xB8, CHR 0x8F]"

definition rule_line :: string where
  "rule_line = ''================================''"

fun print_out_lines :: "string list \<Rightarrow> world \<Rightarrow> world" where
  "print_out_lines [] w = w"
| "print_out_lines (s # ss) w = print_out_lines ss (print_out s w)"

definition sleep :: "nat \<Rightarrow> world \<Rightarrow> world" where
  "sleep seconds w = w\<lparr>events := events w @ [Sleep seconds]\<rparr>"

text \<open>\<open>if result:\<close> for the result of \<open>generate_image\<close>, a string or \<open>None\<close>.\<close>

definition truthy :: "string option \<Rightarrow> bool" where
  "truthy x \<longleftrightarrow> \<not> falsy x"

text \<open>
  The loop of lines 187 to 194 over the indices still to do, with the list
  \<open>successful_images\<close> built so far. A run is taken as \<open>env\<close> describes it: every
  \<open>await\<close> ends with the answer of the service and no write meets a device error.
\<close>

fun generate_all ::
  "config \<Rightarrow> env \<Rightarrow> string \<Rightarrow> path \<Rightarrow> int list \<Rightarrow> string list \<Rightarrow> world \<Rightarrow>
   (exc + string list) \<times> world" where
  "generate_all cfg e prompt session_dir [] successful_images w = (Inr successful_images, w)"
| "generate_all cfg e prompt session_dir (i # rest) successful_images w =
     (case generate_image cfg (Answered (api e (requests w))) None prompt i session_dir w of
        (Inl x, w1) \<Rightarrow> (Inl x, w1)
      | (Inr result, w1) \<Rightarrow>
          generate_all cfg e prompt session_dir rest
            (if truthy result then successful_images @ [the result] else successful_images)
            (if i < IMAGE_COUNT cfg then sleep 1 w1 else w1))"

text \<open>Lines 183 to 206: the generation and the report.\<close>

definition generation_phase ::
  "config \<Rightarrow> env \<Rightarrow> string \<Rightarrow> path \<Rightarrow> world \<Rightarrow> (exc + unit) \<times> world" where
  "generation_phase cfg e prompt session_dir w =
     (let w1 = print_out (rocket_mark @ '' Starting image generation...'' @ nl) w
      in case generate_all cfg e prompt session_dir [1..IMAGE_COUNT cfg] [] w1 of
           (Inl x, w2) \<Rightarrow> (Inl x, w2)
         | (Inr successful_images, w2) \<Rightarrow>
             (let success_count = int (length successful_images);
                  w3 = print_out_lines
                         [nl @ rule_line,
                          sparkles_mark @ '' Generation Complete!'',
                          ''   Success: '' @ str_int success_count @ ''/'' @
                            str_int (IMAGE_COUNT cfg),
                          ''   Location: '' @ path_str session_dir,
                          rule_line @ nl] w2
              in if success_count < IMAGE_COUNT cfg then
                   (Inl (SystemExit 1),
                    print_out (warning_mark @
                               ''  Some images failed to generate. Check the errors above.'') w3)
                 else (Inr (), w3)))"

text \<open>Lines 160 to 180: the banner, the validation, the directories and the metadata
  file; the result is the prompt and the session directory.\<close>

definition preparation ::
  "config \<Rightarrow> string list \<Rightarrow> env \<Rightarrow> world \<Rightarrow> (exc + string \<times> path) \<times> world" where
  "preparation cfg argv e w =
     (let w1 = print_out_lines [palette_mark @ '' Gemini Blog Image Generator'', rule_line @ nl] w
      in case validate_args cfg argv w1 of
           (Inl x, w2) \<Rightarrow> (Inl x, w2)
         | (Inr _, w2) \<Rightarrow>
             (let prompt = argv ! 1;
                  w3 = print_out_lines
                         [memo_mark @ '' Prompt: '' @ dq @ prompt @ dq,
                          numbers_mark @ '' Image Count: '' @ str_int (IMAGE_COUNT cfg),
                          ruler_mark @ '' Aspect Ratio: '' @ IMAGE_ASPECT_RATIO cfg,
                          ruler_mark @ '' Image Size: '' @ IMAGE_SIZE cfg,
                          open_folder_mark @ '' Output Directory: '' @ the (OUTPUT_DIR cfg) @ nl] w2
              in case ensure_output_directory cfg w3 of
                   (Inl x, w4) \<Rightarrow> (Inl x, w4)
                 | (Inr _, w4) \<Rightarrow>
                     (case create_timestamped_directory cfg e w4 of
                        (Inl x, w5) \<Rightarrow> (Inl x, w5)
                      | (Inr session_dir, w5) \<Rightarrow>
                          (let w6 = print_out (folder_mark @ '' Session Directory: '' @
                                               path_str session_dir @ nl) w5
                           in case save_prompt_file cfg e session_dir prompt w6 of
                                (Inl x, w7) \<Rightarrow> (Inl x, w7)
                              | (Inr _, w7) \<Rightarrow> (Inr (prompt, session_dir), w7)))))"

text \<open>\<open>main\<close>: the preparation, then the generation and the report.\<close>

definition main :: "config \<Rightarrow> string list \<Rightarrow> env \<Rightarrow> world \<Rightarrow> (exc + unit) \<times> world" where
  "main cfg argv e w =
     (case preparation cfg argv e w of
        (Inl x, w1) \<Rightarrow> (Inl x, w1)
      | (Inr (prompt, session_dir), w1) \<Rightarrow> generation_phase cfg e prompt session_dir w1)"

text \<open>
  Lines 209 to 214: the exit status of the process and the final state. An \<open>Exception\<close>
  out of \<open>main\<close> is printed and becomes status 1; a \<open>SystemExit\<close> passes the handler and
  ends the process with its own code; a normal return is status 0. A cancelled main
  task leaves \<open>asyncio.run\<close> as \<open>KeyboardInterrupt\<close>, which passes the handler too and
  ends the process as the interrupt signal does (status 130 to the shell).
\<close>

definition script :: "config \<Rightarrow> string list \<Rightarrow> env \<Rightarrow> world \<Rightarrow> int \<times> world" where
  "script cfg argv e w =
     (case main cfg argv e w of
        (Inr _, w') \<Rightarrow> (0, w')
      | (Inl (Exception error), w') \<Rightarrow>
          (1, print_err (nl @ cross_mark @ '' Fatal Error: '' @ error) w')
      | (Inl (SystemExit code), w') \<Rightarrow> (code, w')
      | (Inl CancelledError, w') \<Rightarrow> (130, w'))"

section \<open>Notions the properties are stated with\<close>

text \<open>
  The message of the first check of \<open>validate_args\<close> that fails, in the order API key,
  output directory, prompt.
\<close>

definition first_failing_message :: "config \<Rightarrow> string list" where
  "first_failing_message cfg =
     (if falsy (API_KEY cfg) then api_key_message
      else if falsy (OUTPUT_DIR cfg) then output_dir_message
      else prompt_message)"

text \<open>
  What an answer of the image service yields before anything is written: the bytes of
  the first inline payload, or the error \<open>generate_image\<close> meets on the way to them.
\<close>

fun first_inline :: "part list \<Rightarrow> payload option" where
  "first_inline [] = None"
| "first_inline (p # ps) = (case inline_data p of None \<Rightarrow> first_inline ps | Some d \<Rightarrow> Some d)"

definition answer_image :: "api_outcome \<Rightarrow> exc + bytes" where
  "answer_image a =
     (case a of
        ApiRaises msg \<Rightarrow> Inl (Exception msg)
      | ApiReturns r \<Rightarrow>
          (case response_parts r of
             Inl x \<Rightarrow> Inl x
           | Inr ps \<Rightarrow>
               (case first_inline ps of
                  None \<Rightarrow> Inl (Exception ''No image data in response'')
                | Some d \<Rightarrow> image_buffer d)))"

text \<open>An API call succeeds when its answer carries an image.\<close>

definition api_succeeds :: "api_outcome \<Rightarrow> bool" where
  "api_succeeds a \<longleftrightarrow> (case answer_image a of Inl _ \<Rightarrow> False | Inr _ \<Rightarrow> True)"

text \<open>The names of the entries of a directory.\<close>

definition entries :: "filesystem \<Rightarrow> path \<Rightarrow> string set" where
  "entries f d = {name. f (joinpath d name) \<noteq> None}"

text \<open>
  The results the loop of lines 187 to 194 receives from \<open>generate_image\<close>, one for
  each call it makes, in order.
\<close>

fun attempt_results ::
  "config \<Rightarrow> env \<Rightarrow> string \<Rightarrow> path \<Rightarrow> int list \<Rightarrow> world \<Rightarrow> string option list" where
  "attempt_results cfg e prompt session_dir [] w = []"
| "attempt_results cfg e prompt session_dir (i # rest) w =
     (case generate_image cfg (Answered (api e (requests w))) None prompt i session_dir w of
        (Inl x, w1) \<Rightarrow> []
      | (Inr result, w1) \<Rightarrow>
          result # attempt_results cfg e prompt session_dir rest
                     (if i < IMAGE_COUNT cfg then sleep 1 w1 else w1))"

text \<open>
  The requests and pauses of a run for \<open>n\<close> images: each request is sent and completed,
  and a pause of one second follows it unless it is the last.
\<close>

definition request_schedule :: "int \<Rightarrow> event list" where
  "request_schedule n =
     concat (map (\<lambda>i. [ApiRequest i, ApiDone i] @ (if i < n then [Sleep 1] else [])) [1..n])"

fun is_write :: "event \<Rightarrow> bool" where
  "is_write (WriteFile p) = True"
| "is_write _ = False"

text \<open>
  The time between two readings of the clock, as the subtraction of two \<open>datetime\<close>
  values gives it: the microseconds since the start of year 1 (\<open>toordinal\<close> counts the
  days of the proleptic Gregorian calendar).
\<close>

definition is_leap :: "nat \<Rightarrow> bool" where
  "is_leap y \<longleftrightarrow> y mod 4 = 0 \<and> (y mod 100 \<noteq> 0 \<or> y mod 400 = 0)"

definition days_before_year :: "nat \<Rightarrow> nat" where
  "days_before_year y = (y - 1) * 365 + (y - 1) div 4 - (y - 1) div 100 + (y - 1) div 400"

definition days_before_month :: "nat \<Rightarrow> nat \<Rightarrow> nat" where
  "days_before_month y m =
     [0, 0, 31, 59, 90, 120, 151, 181, 212, 243, 273, 304, 334] ! m +
     (if 2 < m \<and> is_leap y then 1 else 0)"

definition toordinal :: "datetime \<Rightarrow> nat" where
  "toordinal d = days_before_year (year d) + days_before_month (year d) (month d) + day d"

definition microseconds_of :: "datetime \<Rightarrow> int" where
  "microseconds_of d =
     int (((toordinal d * 24 + hour d) * 60 + minute d) * 60 + second d) * 1000000 +
     int (microsecond d)"

definition image_path :: "path \<Rightarrow> int \<Rightarrow> path" where
  "image_path session_dir i = joinpath session_dir (image_filename i)"

definition requested :: "int \<Rightarrow> world \<Rightarrow> world" where
  "requested i w =
     (print_out (''   Processing image '' @ str_int i @ ''...'') w)
       \<lparr>events := events w @ [ApiRequest i, ApiDone i], requests := Suc (requests w)\<rparr>"

definition succeeded :: "int \<Rightarrow> path \<Rightarrow> bytes \<Rightarrow> world \<Rightarrow> world" where
  "succeeded i session_dir b w =
     print_out (''   '' @ check_mark @ '' Generated: '' @ image_filename i @ '' ('' @
                str_nat (length b) @ '' bytes)'')
       ((requested i w)
          \<lparr>fs := (fs w)(image_path session_dir i \<mapsto> BinaryFile b),
           events := events w @ [ApiRequest i, ApiDone i, WriteFile (image_path session_dir i)]\<rparr>)"

text \<open>The state once the image file of call \<open>i\<close> holds \<open>b\<close>.\<close>

definition written :: "int \<Rightarrow> path \<Rightarrow> bytes \<Rightarrow> world \<Rightarrow> world" where
  "written i session_dir b w =
     (requested i w)
       \<lparr>fs := (fs w)(image_path session_dir i \<mapsto> BinaryFile b),
        events := events w @ [ApiRequest i, ApiDone i, WriteFile (image_path session_dir i)]\<rparr>"

text \<open>The line of line 135 for the call \<open>i\<close> and the text of the error.\<close>

definition failure_line :: "int \<Rightarrow> string \<Rightarrow> string" where
  "failure_line i msg =
     ''   '' @ cross_mark @ '' Failed to generate image '' @ str_int i @ '': '' @ msg"

text \<open>
  The state in which a call that fails returns: the request went out unless the client
  could not be built.
\<close>

definition failed :: "config \<Rightarrow> int \<Rightarrow> string \<Rightarrow> world \<Rightarrow> world" where
  "failed cfg i msg w =
     print_err (''   '' @ cross_mark @ '' Failed to generate image '' @ str_int i @
                '': '' @ msg) (if falsy (API_KEY cfg) then w else requested i w)"

fun message_of :: "exc \<Rightarrow> string" where
  "message_of (Exception m) = m"
| "message_of (SystemExit c) = []"
| "message_of CancelledError = []"

text \<open>
  What a call of the loop comes to: the bytes it writes, or the message of the error
  that stops it.
\<close>

definition generation_outcome ::
  "config \<Rightarrow> env \<Rightarrow> int \<Rightarrow> path \<Rightarrow> world \<Rightarrow> string + bytes" where
  "generation_outcome cfg e i session_dir w =
     (if falsy (API_KEY cfg) then Inl missing_key_message
      else case answer_image (api e (requests w)) of
             Inl x \<Rightarrow> Inl (message_of x)
           | Inr b \<Rightarrow>
               if can_write (fs w) (image_path session_dir i) then Inr b
               else Inl (message_of (open_error (fs w) (image_path session_dir i))))"

definition digits_value :: "string \<Rightarrow> nat" where
  "digits_value s = foldl (\<lambda>a c. 10 * a + (of_char c - 48)) 0 s"

definition is_digit :: "char \<Rightarrow> bool" where
  "is_digit c \<longleftrightarrow> 48 \<le> (of_char c :: nat) \<and> (of_char c :: nat) \<le> 57"

text \<open>The state after the call for index \<open>i\<close> and the pause that follows it.\<close>

definition after_attempt :: "config \<Rightarrow> env \<Rightarrow> int \<Rightarrow> path \<Rightarrow> world \<Rightarrow> world" where
  "after_attempt cfg e i session_dir w =
     (let w1 = (case generation_outcome cfg e i session_dir w of
                  Inl msg \<Rightarrow> failed cfg i msg w
                | Inr b \<Rightarrow> succeeded i session_dir b w)
      in if i < IMAGE_COUNT cfg then sleep 1 w1 else w1)"

definition attempt_result :: "config \<Rightarrow> env \<Rightarrow> int \<Rightarrow> path \<Rightarrow> world \<Rightarrow> string option" where
  "attempt_result cfg e i session_dir w =
     (case generation_outcome cfg e i session_dir w of
        Inl msg \<Rightarrow> None
      | Inr b \<Rightarrow> Some (path_str (image_path session_dir i)))"

text \<open>The results the loop receives when the generation phase starts in \<open>w\<close>.\<close>

definition phase_results ::
  "config \<Rightarrow> env \<Rightarrow> string \<Rightarrow> path \<Rightarrow> world \<Rightarrow> string option list" where
  "phase_results cfg e prompt session_dir w =
     attempt_results cfg e prompt session_dir [1..IMAGE_COUNT cfg]
       (print_out (rocket_mark @ '' Starting image generation...'' @ nl) w)"

text \<open>The world in which the loop of the generation phase ends.\<close>

definition after_loop :: "config \<Rightarrow> env \<Rightarrow> string \<Rightarrow> path \<Rightarrow> world \<Rightarrow> world" where
  "after_loop cfg e prompt session_dir w =
     snd (generate_all cfg e prompt session_dir [1..IMAGE_COUNT cfg] []
            (print_out (rocket_mark @ '' Starting image generation...'' @ nl) w))"

definition report :: "config \<Rightarrow> path \<Rightarrow> int \<Rightarrow> string list" where
  "report cfg session_dir success_count =
     [nl @ rule_line,
      sparkles_mark @ '' Generation Complete!'',
      ''   Success: '' @ str_int success_count @ ''/'' @ str_int (IMAGE_COUNT cfg),
      ''   Location: '' @ path_str session_dir,
      rule_line @ nl]"

definition successes :: "string option list \<Rightarrow> int" where
  "successes rs = int (length (filter (\<lambda>r. r \<noteq> None) rs))"

subsection \<open>Sample inputs\<close>

definition empty_world :: world where
  "empty_world =
     \<lparr>fs = Map.empty, stdout = [], stderr = [], events = [], requests = 0, clock_reads = 0\<rparr>"

definition sample_time :: datetime where
  "sample_time =
     \<lparr>year = 2026, month = 1, day = 2, hour = 3, minute = 4, second = 5, microsecond = 60\<rparr>"

text \<open>A response with a text part, then an image.\<close>

definition image_response :: "payload \<Rightarrow> response" where
  "image_response d = Response (Some [Candidate (Some (Content (Some [Part None, Part (Some d)])))])"

text \<open>A service that answers every request with an image, and one whose second answer
  is an error.\<close>

definition sample_env :: env where
  "sample_env =
     \<lparr>api = (\<lambda>k. ApiReturns (image_response (DataBytes [1, 2, 3]))),
      now = (\<lambda>k. sample_time),
      instant = (\<lambda>k. 1767323045000060),
      encodes = (\<lambda>s. True)\<rparr>"

definition failing_env :: env where
  "failing_env =
     \<lparr>api = (\<lambda>k. if k = 1 then ApiRaises ''boom''
                 else ApiReturns (image_response (DataStr ''AQID''))),
      now = (\<lambda>k. sample_time),
      instant = (\<lambda>k. 1767323045000060),
      encodes = (\<lambda>s. True)\<rparr>"

definition sample_config :: config where
  "sample_config = (default_config (Some ''out'') (Some ''key''))\<lparr>IMAGE_COUNT := 2\<rparr>"

definition sample_argv :: "string list" where
  "sample_argv = [''main.py'', ''a cat'']"

text \<open>A service whose answer holds text only.\<close>

definition text_only_env :: env where
  "text_only_env =
     \<lparr>api = (\<lambda>k. ApiReturns (Response (Some [Candidate (Some (Content (Some [Part None])))]))),
      now = (\<lambda>k. sample_time),
      instant = (\<lambda>k. 1767323045000060),
      encodes = (\<lambda>s. True)\<rparr>"

text \<open>The settings as they are in main.py (one image), with both variables set.\<close>

definition one_image_config :: config where
  "one_image_config = default_config (Some ''out'') (Some ''key'')"

text \<open>
  A file system in which the session directory of \<open>sample_time\<close> is already there and
  holds an image of an earlier run.
\<close>

definition stale_world :: world where
  "stale_world =
     empty_world
       \<lparr>fs := [[''out''] \<mapsto> Dir,
               [''out'', ''2026-01-02T03-04-05''] \<mapsto> Dir,
               [''out'', ''2026-01-02T03-04-05'', ''image-02.png''] \<mapsto> BinaryFile [9]]\<rparr>"



text \<open>The timestamp to the second, with a hyphen in the place of every colon.\<close>

definition second_stamp :: "datetime \<Rightarrow> string" where
  "second_stamp t =
     fmt_d 4 (year t) @ ''-'' @ fmt_d 2 (month t) @ ''-'' @ fmt_d 2 (day t) @ ''T'' @
     fmt_d 2 (hour t) @ ''-'' @ fmt_d 2 (minute t) @ ''-'' @ fmt_d 2 (second t)"

text \<open>A reading of the clock two seconds after \<open>sample_time\<close>.\<close>

definition later_time :: datetime where
  "later_time = sample_time\<lparr>second := 7\<rparr>"

text \<open>A clock that reads two seconds later.\<close>

definition later_env :: env where
  "later_env = sample_env\<lparr>now := (\<lambda>k. later_time)\<rparr>"

text \<open>
  The night of 25 October 2026 in central Europe: at 03:00 summer time the local clock
  goes back to 02:00, so it reads 02:30:00 at 00:30:00 UTC and again at 01:30:00 UTC.
\<close>

definition repeated_time :: datetime where
  "repeated_time =
     \<lparr>year = 2026, month = 10, day = 25, hour = 2, minute = 30, second = 0, microsecond = 0\<rparr>"

definition summer_env :: env where
  "summer_env =
     sample_env\<lparr>now := (\<lambda>k. repeated_time), instant := (\<lambda>k. 1792888200 * 1000000)\<rparr>"

definition winter_env :: env where
  "winter_env =
     sample_env\<lparr>now := (\<lambda>k. repeated_time), instant := (\<lambda>k. 1792891800 * 1000000)\<rparr>"

section \<open>How each step changes the state\<close>

lemma print_out_fields [simp]:
  "fs (print_out s w) = fs w" "stdout (print_out s w) = stdout w @ [s]"
  "stderr (print_out s w) = stderr w" "events (print_out s w) = events w"
  "requests (print_out s w) = requests w" "clock_reads (print_out s w) = clock_reads w"
  by (simp_all add: print_out_def)

lemma print_err_fields [simp]:
  "fs (print_err s w) = fs w" "stdout (print_err s w) = stdout w"
  "stderr (print_err s w) = stderr w @ [s]" "events (print_err s w) = events w"
  "requests (print_err s w) = requests w" "clock_reads (print_err s w) = clock_reads w"
  by (simp_all add: print_err_def)

lemma print_out_lines_fields [simp]:
  "fs (print_out_lines ss w) = fs w" "stdout (print_out_lines ss w) = stdout w @ ss"
  "stderr (print_out_lines ss w) = stderr w" "events (print_out_lines ss w) = events w"
  "requests (print_out_lines ss w) = requests w"
  "clock_reads (print_out_lines ss w) = clock_reads w"
  by (induction ss arbitrary: w; simp)+

lemma print_err_lines_fields [simp]:
  "fs (print_err_lines ss w) = fs w" "stdout (print_err_lines ss w) = stdout w"
  "stderr (print_err_lines ss w) = stderr w @ ss" "events (print_err_lines ss w) = events w"
  "requests (print_err_lines ss w) = requests w"
  "clock_reads (print_err_lines ss w) = clock_reads w"
  by (induction ss arbitrary: w; simp)+

section \<open>Validation\<close>

lemma preparation_invalid:
  assumes "falsy (API_KEY cfg) \<or> falsy (OUTPUT_DIR cfg) \<or> length argv < 2"
  shows "preparation cfg argv e w =
           (Inl (SystemExit 1),
            print_err_lines (first_failing_message cfg)
              (print_out_lines
                 [palette_mark @ '' Gemini Blog Image Generator'', rule_line @ nl] w))"
  using assms
  by (auto simp: preparation_def validate_args_def first_failing_message_def Let_def)

lemma script_invalid:
  assumes "falsy (API_KEY cfg) \<or> falsy (OUTPUT_DIR cfg) \<or> length argv < 2"
  shows "script cfg argv e w =
           (1, print_err_lines (first_failing_message cfg)
                 (print_out_lines
                    [palette_mark @ '' Gemini Blog Image Generator'', rule_line @ nl] w))"
  by (simp add: script_def main_def preparation_invalid [OF assms])

lemma first_failing_message_not_empty: "first_failing_message cfg \<noteq> []"
  by (simp add: first_failing_message_def api_key_message_def output_dir_message_def
      prompt_message_def)

text \<open>
  C3. When the API key is missing, or the output directory setting is missing, or no
  prompt argument is given, the process ends with status 1; the error stream gains the
  message of the first failing check in the order API key, output directory, prompt,
  and nothing else; no request is sent, no event happens and the file system is
  untouched.
\<close>

theorem validation_failure_exits_1_without_request:
  assumes "falsy (API_KEY cfg) \<or> falsy (OUTPUT_DIR cfg) \<or> length argv < 2"
  shows "fst (script cfg argv e w) = 1 \<and>
         stderr (snd (script cfg argv e w)) = stderr w @ first_failing_message cfg \<and>
         first_failing_message cfg \<noteq> [] \<and>
         requests (snd (script cfg argv e w)) = requests w \<and>
         events (snd (script cfg argv e w)) = events w \<and>
         fs (snd (script cfg argv e w)) = fs w"
  by (simp add: script_invalid [OF assms] first_failing_message_not_empty)

theorem validation_failure_witness:
  "falsy (API_KEY (default_config (Some ''out'') None)) \<and>
   fst (script (default_config (Some ''out'') None) sample_argv sample_env empty_world) = 1 \<and>
   stderr (snd (script (default_config (Some ''out'') None) sample_argv sample_env empty_world))
     = api_key_message \<and>
   requests (snd (script (default_config (Some ''out'') None) sample_argv sample_env empty_world))
     = 0"
  using validation_failure_exits_1_without_request
    [of "default_config (Some ''out'') None" sample_argv sample_env empty_world]
  by (simp add: falsy_def default_config_def first_failing_message_def empty_world_def)

lemma b64decode_raises_Exception: "b64decode s = Inl x \<Longrightarrow> \<exists>m. x = Exception m"
  by (auto simp: b64decode_def split: if_splits sum.splits)

lemma image_buffer_raises_Exception: "image_buffer d = Inl x \<Longrightarrow> \<exists>m. x = Exception m"
  by (auto simp: image_buffer_def split: payload.splits dest: b64decode_raises_Exception)

lemma response_parts_raises_Exception: "response_parts r = Inl x \<Longrightarrow> \<exists>m. x = Exception m"
  by (auto simp: response_parts_def split: option.splits list.splits)

lemma answer_image_raises_Exception: "answer_image a = Inl x \<Longrightarrow> \<exists>m. x = Exception m"
  by (auto simp: answer_image_def split: api_outcome.splits sum.splits option.splits
      dest: response_parts_raises_Exception image_buffer_raises_Exception)

lemma scan_parts_first_inline:
  "scan_parts ps i session_dir fault w =
     (case first_inline ps of
        None \<Rightarrow> (Inl (Exception ''No image data in response''), w)
      | Some d \<Rightarrow>
          (case image_buffer d of
             Inl x \<Rightarrow> (Inl x, w)
           | Inr b \<Rightarrow>
               (case write_bytes (image_path session_dir i) b fault w of
                  (Inl x, w') \<Rightarrow> (Inl x, w')
                | (Inr _, w') \<Rightarrow>
                    (Inr (path_str (image_path session_dir i)),
                     print_out (''   '' @ check_mark @ '' Generated: '' @ image_filename i @
                                '' ('' @ str_nat (length b) @ '' bytes)'') w'))))"
  unfolding image_path_def
  by (induction ps) (simp_all add: Let_def split: option.splits sum.splits)

lemma requested_fields [simp]:
  "fs (requested i w) = fs w" "stderr (requested i w) = stderr w"
  "events (requested i w) = events w @ [ApiRequest i, ApiDone i]"
  "requests (requested i w) = Suc (requests w)"
  "clock_reads (requested i w) = clock_reads w"
  "stdout (requested i w) = stdout w @ [''   Processing image '' @ str_int i @ ''...'']"
  by (simp_all add: requested_def)

lemma generate_image_try_eq:
  "\<not> falsy (API_KEY cfg) \<Longrightarrow>
   generate_image_try cfg (Answered (api e (requests w))) None prompt i session_dir w =
     (case answer_image (api e (requests w)) of
        Inl x \<Rightarrow> (Inl x, requested i w)
      | Inr b \<Rightarrow>
          if can_write (fs w) (image_path session_dir i)
          then (Inr (path_str (image_path session_dir i)), succeeded i session_dir b w)
          else (Inl (open_error (fs w) (image_path session_dir i)), requested i w))"
  by (simp add: generate_image_try_def Let_def answer_image_def scan_parts_first_inline
      requested_def succeeded_def write_bytes_def print_out_def
      split: api_outcome.splits sum.splits option.splits)

lemma generate_image_eq:
  "generate_image cfg (Answered (api e (requests w))) None prompt i session_dir w =
     (case generation_outcome cfg e i session_dir w of
        Inl msg \<Rightarrow> (Inr None, failed cfg i msg w)
      | Inr b \<Rightarrow> (Inr (Some (path_str (image_path session_dir i))), succeeded i session_dir b w))"
proof (cases "falsy (API_KEY cfg)")
  case True
  then show ?thesis
    by (simp add: generate_image_def generate_image_try_def generation_outcome_def failed_def)
next
  case False
  then show ?thesis
    by (auto simp: generate_image_def generate_image_try_eq generation_outcome_def failed_def
        open_error_def
        split: sum.splits dest: answer_image_raises_Exception)
qed

lemma digits_value_snoc: "digits_value (s @ [c]) = 10 * digits_value s + (of_char c - 48)"
  by (simp add: digits_value_def)

lemma of_char_digit_char: "d < 10 \<Longrightarrow> of_char (digit_char d) = 48 + d"
  by (simp add: digit_char_def)

lemma digits_value_single: "d < 10 \<Longrightarrow> digits_value [digit_char d] = d"
  by (simp add: digits_value_def of_char_digit_char)

lemma digits_value_str_nat: "digits_value (str_nat n) = n"
proof (induction n rule: str_nat.induct)
  case (1 n)
  show ?case
  proof (cases "n < 10")
    case True
    then show ?thesis by (subst str_nat.simps) (simp add: digits_value_single)
  next
    case False
    then have "digits_value (str_nat n) = 10 * digits_value (str_nat (n div 10)) + n mod 10"
      by (subst str_nat.simps) (simp add: digits_value_snoc of_char_digit_char)
    with False 1 show ?thesis by simp
  qed
qed

lemma str_nat_inj: "str_nat m = str_nat n \<Longrightarrow> m = n"
  by (metis digits_value_str_nat)

lemma digits_value_zeros: "digits_value (replicate k (CHR ''0'') @ s) = digits_value s"
proof -
  have "foldl (\<lambda>a c. 10 * a + (of_char c - 48)) 0 (replicate k (CHR ''0'')) = (0::nat)"
    by (induction k) simp_all
  then show ?thesis by (simp add: digits_value_def)
qed

lemma is_digit_digit_char: "d < 10 \<Longrightarrow> is_digit (digit_char d)"
  by (simp add: is_digit_def of_char_digit_char)

lemma str_nat_digits: "\<forall>c \<in> set (str_nat n). is_digit c"
proof (induction n rule: str_nat.induct)
  case (1 n)
  show ?case
  proof (cases "n < 10")
    case True
    then show ?thesis by (subst str_nat.simps) (simp add: is_digit_digit_char)
  next
    case False
    with 1 show ?thesis by (subst str_nat.simps) (simp add: is_digit_digit_char)
  qed
qed

lemma str_nat_not_empty: "str_nat n \<noteq> []"
  by (subst str_nat.simps) simp

lemma str_nat_length: "0 < k \<Longrightarrow> n < 10 ^ k \<Longrightarrow> length (str_nat n) \<le> k"
proof (induction n arbitrary: k rule: str_nat.induct)
  case (1 n)
  show ?case
  proof (cases "n < 10")
    case True
    with 1(2) show ?thesis by (subst str_nat.simps) simp
  next
    case False
    have "k \<noteq> 1" using False 1(3) by auto
    with 1(2) have k: "1 < k" by simp
    then obtain j where j: "k = Suc j" "0 < j" by (cases k) auto
    with 1(3) have "n div 10 < 10 ^ j" by (simp add: less_mult_imp_div_less mult.commute)
    with 1(1) [OF False j(2)] have "length (str_nat (n div 10)) \<le> j" by simp
    with False j show ?thesis by (subst str_nat.simps) simp
  qed
qed

lemma fmt_d_length: "0 < k \<Longrightarrow> n < 10 ^ k \<Longrightarrow> length (fmt_d k n) = k"
  using str_nat_length [of k n] by (simp add: fmt_d_def)

lemma fmt_d_value: "digits_value (fmt_d k n) = n"
  by (simp add: fmt_d_def digits_value_zeros digits_value_str_nat)

lemma fmt_d_digits: "\<forall>c \<in> set (fmt_d k n). is_digit c"
  using str_nat_digits [of n] by (auto simp: fmt_d_def is_digit_def)

lemma zfill_str_nat: "zfill k (str_nat n) = replicate (k - length (str_nat n)) (CHR ''0'') @ str_nat n"
proof (cases "str_nat n")
  case Nil
  then show ?thesis by (simp add: str_nat_not_empty)
next
  case (Cons c r)
  then have "is_digit c" using str_nat_digits [of n] by simp
  then have "c \<noteq> CHR ''+''" "c \<noteq> CHR ''-''" by (auto simp: is_digit_def)
  with Cons show ?thesis by (simp add: zfill_def)
qed

lemma image_filename_inj:
  assumes "image_filename i = image_filename j" "0 \<le> i" "0 \<le> j"
  shows "i = j"
proof -
  from assms have "zfill 2 (str_nat (nat i)) = zfill 2 (str_nat (nat j))"
    by (simp add: image_filename_def str_int_def)
  then have "digits_value (zfill 2 (str_nat (nat i))) = digits_value (zfill 2 (str_nat (nat j)))"
    by simp
  then have "nat i = nat j"
    by (simp add: zfill_str_nat digits_value_zeros digits_value_str_nat)
  with assms show ?thesis by simp
qed

lemma image_filename_not_prompt: "image_filename i \<noteq> ''prompt.txt''"
  by (simp add: image_filename_def)

lemma image_filename_not_empty: "image_filename i \<noteq> []"
  by (simp add: image_filename_def)

lemma join_not_empty: "xs \<noteq> [] \<Longrightarrow> last xs \<noteq> [] \<Longrightarrow> join sep xs \<noteq> []"
  by (induction sep xs rule: join.induct) auto

lemma path_str_joinpath_not_empty: "name \<noteq> [] \<Longrightarrow> path_str (joinpath p name) \<noteq> []"
proof -
  assume name: "name \<noteq> []"
  then have "join ''/'' (p @ [name]) \<noteq> []" by (intro join_not_empty) simp_all
  then show ?thesis by (cases p) (auto simp: path_str_def joinpath_def)
qed

lemma sleep_fields [simp]:
  "fs (sleep n w) = fs w" "stdout (sleep n w) = stdout w"
  "stderr (sleep n w) = stderr w" "events (sleep n w) = events w @ [Sleep n]"
  "requests (sleep n w) = requests w" "clock_reads (sleep n w) = clock_reads w"
  by (simp_all add: sleep_def)

lemma succeeded_fields [simp]:
  "fs (succeeded i d b w) = (fs w)(image_path d i \<mapsto> BinaryFile b)"
  "stderr (succeeded i d b w) = stderr w"
  "events (succeeded i d b w) = events w @ [ApiRequest i, ApiDone i, WriteFile (image_path d i)]"
  "requests (succeeded i d b w) = Suc (requests w)"
  "clock_reads (succeeded i d b w) = clock_reads w"
  by (simp_all add: succeeded_def)

lemma failed_fields [simp]:
  "fs (failed cfg i msg w) = fs w"
  "stderr (failed cfg i msg w) =
     stderr w @ [''   '' @ cross_mark @ '' Failed to generate image '' @ str_int i @ '': '' @ msg]"
  "events (failed cfg i msg w) =
     events w @ (if falsy (API_KEY cfg) then [] else [ApiRequest i, ApiDone i])"
  "requests (failed cfg i msg w) =
     (if falsy (API_KEY cfg) then requests w else Suc (requests w))"
  "clock_reads (failed cfg i msg w) = clock_reads w"
  "stdout (failed cfg i msg w) =
     stdout w @
     (if falsy (API_KEY cfg) then [] else [''   Processing image '' @ str_int i @ ''...''])"
  by (simp_all add: failed_def)

lemma truthy_attempt_result:
  "truthy (attempt_result cfg e i d w) \<longleftrightarrow> attempt_result cfg e i d w \<noteq> None"
  by (auto simp: attempt_result_def truthy_def falsy_def image_path_def
      path_str_joinpath_not_empty image_filename_not_empty split: sum.splits)

lemma generate_all_Cons:
  "generate_all cfg e prompt d (i # rest) acc w =
     generate_all cfg e prompt d rest
       (if attempt_result cfg e i d w \<noteq> None then acc @ [the (attempt_result cfg e i d w)] else acc)
       (after_attempt cfg e i d w)"
  using truthy_attempt_result [of cfg e i d w]
  by (simp add: generate_image_eq after_attempt_def attempt_result_def split: sum.splits)

lemma attempt_results_Cons:
  "attempt_results cfg e prompt d (i # rest) w =
     attempt_result cfg e i d w # attempt_results cfg e prompt d rest (after_attempt cfg e i d w)"
  by (simp add: generate_image_eq after_attempt_def attempt_result_def split: sum.splits)

lemma after_attempt_fields:
  "\<not> falsy (API_KEY cfg) \<Longrightarrow> requests (after_attempt cfg e i d w) = Suc (requests w)"
  "clock_reads (after_attempt cfg e i d w) = clock_reads w"
  by (simp_all add: after_attempt_def Let_def split: sum.splits)

lemma generation_outcome_Inr_key:
  "generation_outcome cfg e i d w = Inr b \<Longrightarrow> \<not> falsy (API_KEY cfg)"
  by (simp add: generation_outcome_def split: if_splits)

lemma after_attempt_events:
  "events (after_attempt cfg e i d w) =
     events w @ (if falsy (API_KEY cfg) then [] else [ApiRequest i, ApiDone i]) @
     (if attempt_result cfg e i d w \<noteq> None then [WriteFile (image_path d i)] else []) @
     (if i < IMAGE_COUNT cfg then [Sleep 1] else [])"
  by (auto simp: after_attempt_def attempt_result_def Let_def split: sum.splits
      dest: generation_outcome_Inr_key)

lemma after_attempt_stderr:
  "\<exists>ls. stderr (after_attempt cfg e i d w) = stderr w @ ls \<and> (\<forall>l \<in> set ls. take 3 l = ''   '')"
  by (simp add: after_attempt_def attempt_result_def Let_def split: sum.splits)

lemma after_attempt_fs:
  "fs (after_attempt cfg e i d w) =
     (case generation_outcome cfg e i d w of
        Inl msg \<Rightarrow> fs w
      | Inr b \<Rightarrow> (fs w)(image_path d i \<mapsto> BinaryFile b))"
  by (simp add: after_attempt_def Let_def split: sum.splits)


lemma generate_all_result:
  "fst (generate_all cfg e prompt d is acc w) =
     Inr (acc @ map the (filter (\<lambda>r. r \<noteq> None) (attempt_results cfg e prompt d is w)))"
  by (induction "is" arbitrary: acc w)
    (simp_all add: generate_all_Cons attempt_results_Cons
      del: generate_all.simps(2) attempt_results.simps(2))

lemma generate_all_requests:
  "\<not> falsy (API_KEY cfg) \<Longrightarrow>
   requests (snd (generate_all cfg e prompt d is acc w)) = requests w + length is"
  by (induction "is" arbitrary: acc w)
    (simp_all add: generate_all_Cons after_attempt_fields del: generate_all.simps(2))

lemma generate_all_clock:
  "clock_reads (snd (generate_all cfg e prompt d is acc w)) = clock_reads w"
  by (induction "is" arbitrary: acc w)
    (simp_all add: generate_all_Cons after_attempt_fields del: generate_all.simps(2))

lemma generate_all_schedule:
  "\<not> falsy (API_KEY cfg) \<Longrightarrow>
   filter (\<lambda>ev. \<not> is_write ev) (events (snd (generate_all cfg e prompt d is acc w))) =
     filter (\<lambda>ev. \<not> is_write ev) (events w) @
     concat (map (\<lambda>i. [ApiRequest i, ApiDone i] @ (if i < IMAGE_COUNT cfg then [Sleep 1] else []))
               is)"
  by (induction "is" arbitrary: acc w)
    (simp_all add: generate_all_Cons after_attempt_events del: generate_all.simps(2))

lemma generate_all_stderr:
  "\<exists>ls. stderr (snd (generate_all cfg e prompt d is acc w)) = stderr w @ ls \<and>
        (\<forall>l \<in> set ls. take 3 l = ''   '')"
proof (induction "is" arbitrary: acc w)
  case Nil
  then show ?case by simp
next
  case (Cons i rest)
  obtain l1 where l1: "stderr (after_attempt cfg e i d w) = stderr w @ l1"
    "\<forall>l \<in> set l1. take 3 l = ''   ''"
    using after_attempt_stderr by blast
  obtain l2 where l2:
    "stderr (snd (generate_all cfg e prompt d rest
        (if attempt_result cfg e i d w \<noteq> None then acc @ [the (attempt_result cfg e i d w)] else acc)
        (after_attempt cfg e i d w))) = stderr (after_attempt cfg e i d w) @ l2"
    "\<forall>l \<in> set l2. take 3 l = ''   ''"
    using Cons.IH by blast
  show ?case
    unfolding generate_all_Cons
    by (rule exI [of _ "l1 @ l2"]) (use l1 l2 in auto)
qed

lemma generate_all_events:
  "\<exists>evs. events (snd (generate_all cfg e prompt d is acc w)) = events w @ evs \<and>
         (\<forall>p. WriteFile p \<in> set evs \<longrightarrow> p \<in> image_path d ` set is)"
proof (induction "is" arbitrary: acc w)
  case Nil
  then show ?case by simp
next
  case (Cons i rest)
  obtain evs where evs:
    "events (snd (generate_all cfg e prompt d rest
        (if attempt_result cfg e i d w \<noteq> None then acc @ [the (attempt_result cfg e i d w)] else acc)
        (after_attempt cfg e i d w))) = events (after_attempt cfg e i d w) @ evs"
    "\<forall>p. WriteFile p \<in> set evs \<longrightarrow> p \<in> image_path d ` set rest"
    using Cons.IH by blast
  show ?case
    unfolding generate_all_Cons
    by (rule exI [of _ "(if falsy (API_KEY cfg) then [] else [ApiRequest i, ApiDone i]) @
         (if attempt_result cfg e i d w \<noteq> None then [WriteFile (image_path d i)] else []) @
         (if i < IMAGE_COUNT cfg then [Sleep 1] else []) @ evs"])
      (use evs in \<open>auto simp: after_attempt_events\<close>)
qed

lemma generate_all_fs_frame:
  "p \<notin> image_path d ` set is \<Longrightarrow> fs (snd (generate_all cfg e prompt d is acc w)) p = fs w p"
  by (induction "is" arbitrary: acc w)
    (auto simp: generate_all_Cons after_attempt_fs simp del: generate_all.simps(2)
      split: sum.splits)

lemma generate_all_keeps_binary:
  "fs w p = Some (BinaryFile b) \<Longrightarrow>
   \<exists>b'. fs (snd (generate_all cfg e prompt d is acc w)) p = Some (BinaryFile b')"
proof (induction "is" arbitrary: acc w b)
  case Nil
  then show ?case by simp
next
  case (Cons i rest)
  have "\<exists>b'. fs (after_attempt cfg e i d w) p = Some (BinaryFile b')"
    using Cons.prems by (auto simp: after_attempt_fs split: sum.splits)
  then show ?case
    unfolding generate_all_Cons using Cons.IH by blast
qed

lemma lookup_update_Dir: "lookup (f(p \<mapsto> Dir)) p = Some Dir"
  by (simp add: lookup_def)

lemma lookup_update_keeps_Dir: "lookup f q = Some Dir \<Longrightarrow> lookup (f(p \<mapsto> Dir)) q = Some Dir"
  by (auto simp: lookup_def split: if_splits)

lemma mkdir_from_frame:
  "mkdir_from base rest f = Inr f' \<Longrightarrow> length base + length rest < length p \<Longrightarrow> f' p = f p"
proof (induction rest arbitrary: base f)
  case Nil
  then show ?case by simp
next
  case (Cons name rest)
  show ?case
  proof (cases "lookup f (base @ [name])")
    case None
    with Cons.prems(1) have "mkdir_from (base @ [name]) rest (f(base @ [name] \<mapsto> Dir)) = Inr f'"
      by (simp add: Let_def)
    from Cons.IH [OF this] Cons.prems(2) have "f' p = (f(base @ [name] \<mapsto> Dir)) p" by simp
    with Cons.prems(2) show ?thesis by auto
  next
    case (Some n)
    with Cons.prems(1) have "mkdir_from (base @ [name]) rest f = Inr f'"
      by (cases n) (simp_all add: Let_def)
    from Cons.IH [OF this] Cons.prems(2) show ?thesis by simp
  qed
qed

lemma mkdir_from_keeps_Dir:
  "mkdir_from base rest f = Inr f' \<Longrightarrow> lookup f q = Some Dir \<Longrightarrow> lookup f' q = Some Dir"
proof (induction rest arbitrary: base f)
  case Nil
  then show ?case by simp
next
  case (Cons name rest)
  show ?case
  proof (cases "lookup f (base @ [name])")
    case None
    with Cons.prems(1) have "mkdir_from (base @ [name]) rest (f(base @ [name] \<mapsto> Dir)) = Inr f'"
      by (simp add: Let_def)
    from Cons.IH [OF this lookup_update_keeps_Dir [OF Cons.prems(2)]] show ?thesis .
  next
    case (Some n)
    with Cons.prems(1) have "mkdir_from (base @ [name]) rest f = Inr f'"
      by (cases n) (simp_all add: Let_def)
    from Cons.IH [OF this Cons.prems(2)] show ?thesis .
  qed
qed

lemma mkdir_from_makes_Dir:
  "mkdir_from base rest f = Inr f' \<Longrightarrow> rest \<noteq> [] \<Longrightarrow> lookup f' (base @ rest) = Some Dir"
proof (induction rest arbitrary: base f)
  case Nil
  then show ?case by simp
next
  case (Cons name rest)
  let ?p = "base @ [name]"
  obtain g where g: "mkdir_from ?p rest g = Inr f'" "lookup g ?p = Some Dir"
  proof (cases "lookup f ?p")
    case None
    with Cons.prems(1) have "mkdir_from ?p rest (f(?p \<mapsto> Dir)) = Inr f'"
      by (simp add: Let_def)
    then show ?thesis using that lookup_update_Dir by blast
  next
    case (Some n)
    with Cons.prems(1) have "n = Dir" by (cases n) (simp_all add: Let_def)
    with Some Cons.prems(1) have "mkdir_from ?p rest f = Inr f'" by (simp add: Let_def)
    then show ?thesis using that Some \<open>n = Dir\<close> by blast
  qed
  show ?case
  proof (cases "rest = []")
    case True
    with g show ?thesis by simp
  next
    case False
    from Cons.IH [OF g(1) False] show ?thesis by simp
  qed
qed

lemma validate_args_ok:
  "validate_args cfg argv w = (Inr u, w') \<Longrightarrow>
   w' = w \<and> \<not> falsy (API_KEY cfg) \<and> \<not> falsy (OUTPUT_DIR cfg) \<and> 2 \<le> length argv"
  by (auto simp: validate_args_def split: if_splits)

lemma ensure_output_directory_ok:
  assumes "ensure_output_directory cfg w = (Inr u, w')"
  shows "stderr w' = stderr w" "events w' = events w" "requests w' = requests w"
    "clock_reads w' = clock_reads w"
    "\<exists>d. OUTPUT_DIR cfg = Some d \<and> (\<forall>p. length (Path d) < length p \<longrightarrow> fs w' p = fs w p)"
  using assms
  by (auto simp: ensure_output_directory_def output_path_of_def mkdir_parents_def
      split: option.splits if_splits sum.splits dest: mkdir_from_frame)

lemma create_timestamped_directory_ok:
  assumes "create_timestamped_directory cfg e w = (Inr session_dir, w')"
  shows "stderr w' = stderr w" "events w' = events w" "requests w' = requests w"
    "clock_reads w' = Suc (clock_reads w)" "stdout w' = stdout w"
    "\<exists>d. OUTPUT_DIR cfg = Some d \<and>
         session_dir = joinpath (Path d) (session_name (now e (clock_reads w)))"
    "lookup (fs w') session_dir = Some Dir"
    "\<forall>p. length session_dir < length p \<longrightarrow> fs w' p = fs w p"
  using assms
  by (auto simp: create_timestamped_directory_def output_path_of_def mkdir_parents_def
      datetime_now_def Let_def joinpath_def
      split: option.splits if_splits sum.splits
      dest: mkdir_from_frame mkdir_from_makes_Dir)

lemma save_prompt_file_ok:
  assumes "save_prompt_file cfg e session_dir prompt w = (Inr u, w')"
  shows "stderr w' = stderr w" "requests w' = requests w"
    "events w' = events w @ [WriteFile (joinpath session_dir ''prompt.txt'')]"
    "clock_reads w' = Suc (clock_reads w)"
    "fs w' = (fs w)(joinpath session_dir ''prompt.txt'' \<mapsto>
               TextFile (join nl (metadata cfg (now e (clock_reads w)) session_dir prompt)))"
  using assms
  by (auto simp: save_prompt_file_def write_text_def datetime_now_def Let_def
      split: if_splits)

lemma generation_phase_eq:
  "generation_phase cfg e prompt d w =
     (let n = successes (phase_results cfg e prompt d w);
          w3 = print_out_lines (report cfg d n) (after_loop cfg e prompt d w)
      in if n < IMAGE_COUNT cfg then
           (Inl (SystemExit 1),
            print_out (warning_mark @
                       ''  Some images failed to generate. Check the errors above.'') w3)
         else (Inr (), w3))"
proof -
  let ?w1 = "print_out (rocket_mark @ '' Starting image generation...'' @ nl) w"
  obtain r w2 where g: "generate_all cfg e prompt d [1..IMAGE_COUNT cfg] [] ?w1 = (r, w2)"
    by (cases "generate_all cfg e prompt d [1..IMAGE_COUNT cfg] [] ?w1")
  from generate_all_result [of cfg e prompt d "[1..IMAGE_COUNT cfg]" "[]" ?w1] g
  have r: "r = Inr (map the (filter (\<lambda>r. r \<noteq> None) (phase_results cfg e prompt d w)))"
    by (simp add: phase_results_def)
  have a: "after_loop cfg e prompt d w = w2"
    unfolding after_loop_def g by simp
  show ?thesis
    unfolding generation_phase_def Let_def g r a successes_def report_def
    by (simp del: print_out_lines.simps)
qed

lemma preparation_ok:
  assumes "preparation cfg argv e w = (Inr (prompt, d), w')"
  shows "prompt = argv ! 1" "\<not> falsy (API_KEY cfg)" "\<not> falsy (OUTPUT_DIR cfg)" "2 \<le> length argv"
    "stderr w' = stderr w" "requests w' = requests w"
    "events w' = events w @ [WriteFile (joinpath d ''prompt.txt'')]"
    "OUTPUT_DIR cfg = Some out \<Longrightarrow> d = joinpath (Path out) (session_name (now e (clock_reads w)))"
    "fs w' (joinpath d ''prompt.txt'') =
       Some (TextFile (join nl (metadata cfg (now e (Suc (clock_reads w))) d prompt)))"
    "lookup (fs w') d = Some Dir"
    "name \<noteq> ''prompt.txt'' \<Longrightarrow> fs w' (joinpath d name) = fs w (joinpath d name)"
proof -
  let ?w1 = "print_out_lines [palette_mark @ '' Gemini Blog Image Generator'', rule_line @ nl] w"
  let ?w3 = "print_out_lines
               [memo_mark @ '' Prompt: '' @ dq @ argv ! 1 @ dq,
                numbers_mark @ '' Image Count: '' @ str_int (IMAGE_COUNT cfg),
                ruler_mark @ '' Aspect Ratio: '' @ IMAGE_ASPECT_RATIO cfg,
                ruler_mark @ '' Image Size: '' @ IMAGE_SIZE cfg,
                open_folder_mark @ '' Output Directory: '' @ the (OUTPUT_DIR cfg) @ nl] ?w1"
  from assms obtain u1 w2 where v: "validate_args cfg argv ?w1 = (Inr u1, w2)"
    by (auto simp: preparation_def Let_def split: prod.splits sum.splits)
  from validate_args_ok [OF v] have w2: "w2 = ?w1" and valid: "\<not> falsy (API_KEY cfg)"
    "\<not> falsy (OUTPUT_DIR cfg)" "2 \<le> length argv" by simp_all
  from assms v w2 obtain u2 w4 where en: "ensure_output_directory cfg ?w3 = (Inr u2, w4)"
    by (auto simp: preparation_def Let_def split: prod.splits sum.splits)
  from assms v w2 en obtain w5 where cr: "create_timestamped_directory cfg e w4 = (Inr d, w5)"
    and p: "prompt = argv ! 1"
    and sv: "save_prompt_file cfg e d prompt
               (print_out (folder_mark @ '' Session Directory: '' @ path_str d @ nl) w5)
             = (Inr (), w')"
    by (auto simp: preparation_def Let_def split: prod.splits sum.splits)
  note e4 = ensure_output_directory_ok [OF en]
  note c5 = create_timestamped_directory_ok [OF cr]
  note s7 = save_prompt_file_ok [OF sv]
  show "prompt = argv ! 1" by (rule p)
  show "\<not> falsy (API_KEY cfg)" "\<not> falsy (OUTPUT_DIR cfg)" "2 \<le> length argv" by (rule valid)+
  show "stderr w' = stderr w" using e4(1) c5(1) s7(1) by simp
  show "requests w' = requests w" using e4(3) c5(3) s7(2) by simp
  show "events w' = events w @ [WriteFile (joinpath d ''prompt.txt'')]"
    using e4(2) c5(2) s7(3) by simp
  show "d = joinpath (Path out) (session_name (now e (clock_reads w)))" if "OUTPUT_DIR cfg = Some out"
    using that c5(6) e4(4) by auto
  show "fs w' (joinpath d ''prompt.txt'') =
       Some (TextFile (join nl (metadata cfg (now e (Suc (clock_reads w))) d prompt)))"
    using s7(5) c5(4) e4(4) by simp
  have "joinpath d ''prompt.txt'' \<noteq> d" by (simp add: joinpath_def)
  then show "lookup (fs w') d = Some Dir"
    using c5(7) s7(5) by (auto simp: lookup_def split: if_splits)
  show "fs w' (joinpath d name) = fs w (joinpath d name)" if "name \<noteq> ''prompt.txt''"
  proof -
    obtain out where out: "OUTPUT_DIR cfg = Some out"
      "\<forall>p. length (Path out) < length p \<longrightarrow> fs w4 p = fs ?w3 p"
      using e4(5) by blast
    with c5(6) have d: "d = joinpath (Path out) (session_name (now e (clock_reads w4)))" by simp
    have "fs w' (joinpath d name) = fs w5 (joinpath d name)"
      using s7(5) that by (simp add: joinpath_def)
    also have "\<dots> = fs w4 (joinpath d name)" using c5(8) by (simp add: joinpath_def)
    also have "\<dots> = fs ?w3 (joinpath d name)" using out(2) d by (simp add: joinpath_def)
    finally show ?thesis by simp
  qed
qed

section \<open>The generation phase\<close>

lemma set_upto_1: "set [1..n] = {1..n}"
  by simp

lemma length_upto_1: "length [1..n] = nat n"
  by simp

lemma after_loop_schedule:
  "\<not> falsy (API_KEY cfg) \<Longrightarrow>
   filter (\<lambda>ev. \<not> is_write ev) (events (after_loop cfg e prompt d w)) =
     filter (\<lambda>ev. \<not> is_write ev) (events w) @ request_schedule (IMAGE_COUNT cfg)"
  by (simp add: after_loop_def generate_all_schedule request_schedule_def)

lemma after_loop_requests:
  "\<not> falsy (API_KEY cfg) \<Longrightarrow>
   requests (after_loop cfg e prompt d w) = requests w + nat (IMAGE_COUNT cfg)"
  by (simp add: after_loop_def generate_all_requests)

lemma after_loop_events:
  "\<exists>evs. events (after_loop cfg e prompt d w) = events w @ evs \<and>
         (\<forall>p. WriteFile p \<in> set evs \<longrightarrow> p \<in> image_path d ` {1..IMAGE_COUNT cfg})"
  using generate_all_events [of cfg e prompt d "[1..IMAGE_COUNT cfg]" "[]"
      "print_out (rocket_mark @ '' Starting image generation...'' @ nl) w"]
  by (simp add: after_loop_def)

lemma after_loop_stderr:
  "\<exists>ls. stderr (after_loop cfg e prompt d w) = stderr w @ ls \<and> (\<forall>l \<in> set ls. take 3 l = ''   '')"
  using generate_all_stderr [of cfg e prompt d "[1..IMAGE_COUNT cfg]" "[]"
      "print_out (rocket_mark @ '' Starting image generation...'' @ nl) w"]
  by (simp add: after_loop_def)

lemma after_loop_fs_frame:
  "p \<notin> image_path d ` {1..IMAGE_COUNT cfg} \<Longrightarrow> fs (after_loop cfg e prompt d w) p = fs w p"
  using generate_all_fs_frame [of p d "[1..IMAGE_COUNT cfg]" cfg e prompt "[]"
      "print_out (rocket_mark @ '' Starting image generation...'' @ nl) w"]
  by (simp add: after_loop_def)

lemma generation_phase_fields:
  "fs (snd (generation_phase cfg e prompt d w)) = fs (after_loop cfg e prompt d w)"
  "events (snd (generation_phase cfg e prompt d w)) = events (after_loop cfg e prompt d w)"
  "stderr (snd (generation_phase cfg e prompt d w)) = stderr (after_loop cfg e prompt d w)"
  "requests (snd (generation_phase cfg e prompt d w)) = requests (after_loop cfg e prompt d w)"
  by (simp_all add: generation_phase_eq Let_def del: print_out_lines.simps)

lemma generation_phase_result:
  "fst (generation_phase cfg e prompt d w) =
     (if successes (phase_results cfg e prompt d w) < IMAGE_COUNT cfg
      then Inl (SystemExit 1) else Inr ())"
  by (simp add: generation_phase_eq Let_def)

lemma preparation_pair:
  "fst (preparation cfg argv e w) = Inr (prompt, d) \<Longrightarrow>
   preparation cfg argv e w = (Inr (prompt, d), snd (preparation cfg argv e w))"
  by (cases "preparation cfg argv e w") simp

lemma main_after_preparation:
  "fst (preparation cfg argv e w) = Inr (prompt, d) \<Longrightarrow>
   main cfg argv e w = generation_phase cfg e prompt d (snd (preparation cfg argv e w))"
  by (cases "preparation cfg argv e w") (simp add: main_def)

lemma script_of_main:
  "fst (main cfg argv e w) = Inl (SystemExit c) \<Longrightarrow> script cfg argv e w = (c, snd (main cfg argv e w))"
  "fst (main cfg argv e w) = Inr u \<Longrightarrow> script cfg argv e w = (0, snd (main cfg argv e w))"
  by (cases "main cfg argv e w"; simp add: script_def)+

lemma script_after_preparation:
  assumes "fst (preparation cfg argv e w) = Inr (prompt, d)"
  shows "fst (script cfg argv e w) =
           (if successes (phase_results cfg e prompt d (snd (preparation cfg argv e w)))
               < IMAGE_COUNT cfg then 1 else 0)"
    and "snd (script cfg argv e w) =
           snd (generation_phase cfg e prompt d (snd (preparation cfg argv e w)))"
proof -
  let ?w1 = "snd (preparation cfg argv e w)"
  have m: "main cfg argv e w = generation_phase cfg e prompt d ?w1"
    by (rule main_after_preparation [OF assms])
  show "fst (script cfg argv e w) =
           (if successes (phase_results cfg e prompt d ?w1) < IMAGE_COUNT cfg then 1 else 0)"
    using script_of_main [of cfg argv e w] by (simp add: m generation_phase_result)
  show "snd (script cfg argv e w) = snd (generation_phase cfg e prompt d ?w1)"
    using script_of_main [of cfg argv e w]
    by (cases "successes (phase_results cfg e prompt d ?w1) < IMAGE_COUNT cfg")
      (simp_all add: m generation_phase_result)
qed

text \<open>
  C8. The requests and pauses of a run, in the order they happen, are those of the
  schedule: for each index from 1 to N in turn the request is sent and completed before
  anything else happens, and a pause of one second follows unless the index is N. This
  holds for the generation phase from any state, and so for every run that reaches it.
\<close>

theorem requests_sequential_with_pauses:
  assumes "fst (preparation cfg argv e w) = Inr (prompt, d)"
  shows "filter (\<lambda>ev. \<not> is_write ev) (events (snd (script cfg argv e w))) =
           filter (\<lambda>ev. \<not> is_write ev) (events w) @ request_schedule (IMAGE_COUNT cfg) \<and>
         requests (snd (script cfg argv e w)) = requests w + nat (IMAGE_COUNT cfg) \<and>
         (\<forall>w'. filter (\<lambda>ev. \<not> is_write ev) (events (snd (generation_phase cfg e prompt d w'))) =
                filter (\<lambda>ev. \<not> is_write ev) (events w') @ request_schedule (IMAGE_COUNT cfg))"
proof -
  note p = preparation_ok [OF preparation_pair [OF assms]]
  show ?thesis
    by (simp add: script_after_preparation(2) [OF assms] generation_phase_fields
        after_loop_schedule after_loop_requests p(2) p(6) p(7))
qed

theorem requests_sequential_witness:
  "fst (preparation sample_config sample_argv failing_env empty_world) =
     Inr (''a cat'', [''out'', ''2026-01-02T03-04-05'']) \<and>
   filter (\<lambda>ev. \<not> is_write ev)
     (events (snd (script sample_config sample_argv failing_env empty_world))) =
   [ApiRequest 1, ApiDone 1, Sleep 1, ApiRequest 2, ApiDone 2]"
proof -
  have h: "fst (preparation sample_config sample_argv failing_env empty_world) =
     Inr (''a cat'', [''out'', ''2026-01-02T03-04-05''])"
    by code_simp
  have s: "request_schedule (IMAGE_COUNT sample_config) =
      [ApiRequest 1, ApiDone 1, Sleep 1, ApiRequest 2, ApiDone 2]"
    by code_simp
  from requests_sequential_with_pauses [OF h] h s show ?thesis
    by (simp add: empty_world_def)
qed

text \<open>
  C9. In every run that reaches the generation phase, the first event is the write of
  prompt.txt in the session directory; it is the only write of that file, every
  request comes after it, and the file still holds the metadata when the run ends,
  whatever the image service answers.
\<close>

theorem metadata_file_written_once_before_requests:
  assumes "fst (preparation cfg argv e w) = Inr (prompt, d)"
  shows "(\<exists>evs. events (snd (script cfg argv e w)) =
                 events w @ WriteFile (joinpath d ''prompt.txt'') # evs \<and>
               WriteFile (joinpath d ''prompt.txt'') \<notin> set evs) \<and>
         requests (snd (preparation cfg argv e w)) = requests w \<and>
         fs (snd (script cfg argv e w)) (joinpath d ''prompt.txt'') =
           Some (TextFile (join nl (metadata cfg (now e (Suc (clock_reads w))) d prompt)))"
proof -
  let ?w1 = "snd (preparation cfg argv e w)"
  let ?pf = "joinpath d ''prompt.txt''"
  note p = preparation_ok [OF preparation_pair [OF assms]]
  have notimg: "?pf \<notin> image_path d ` {1..IMAGE_COUNT cfg}"
    by (auto simp: image_path_def joinpath_def image_filename_not_prompt [symmetric])
  obtain evs where evs: "events (after_loop cfg e prompt d ?w1) = events ?w1 @ evs"
    "\<forall>q. WriteFile q \<in> set evs \<longrightarrow> q \<in> image_path d ` {1..IMAGE_COUNT cfg}"
    using after_loop_events by blast
  have "events (snd (script cfg argv e w)) = events w @ WriteFile ?pf # evs"
    by (simp add: script_after_preparation(2) [OF assms] generation_phase_fields evs(1) p(7))
  moreover have "WriteFile ?pf \<notin> set evs" using evs(2) notimg by blast
  moreover have "fs (snd (script cfg argv e w)) ?pf =
      Some (TextFile (join nl (metadata cfg (now e (Suc (clock_reads w))) d prompt)))"
    by (simp add: script_after_preparation(2) [OF assms] generation_phase_fields
        after_loop_fs_frame [OF notimg] p(9))
  ultimately show ?thesis using p(6) by blast
qed

theorem metadata_file_witness:
  "fst (preparation sample_config sample_argv text_only_env empty_world) =
     Inr (''a cat'', [''out'', ''2026-01-02T03-04-05'']) \<and>
   (\<exists>t. fs (snd (script sample_config sample_argv text_only_env empty_world))
          [''out'', ''2026-01-02T03-04-05'', ''prompt.txt''] = Some (TextFile t))"
proof -
  have h: "fst (preparation sample_config sample_argv text_only_env empty_world) =
     Inr (''a cat'', [''out'', ''2026-01-02T03-04-05''])"
    by code_simp
  from metadata_file_written_once_before_requests [OF h] h show ?thesis
    by (simp add: joinpath_def)
qed

section \<open>Exits\<close>

lemma first_failing_message_lines:
  "l \<in> set (first_failing_message cfg) \<Longrightarrow> l \<noteq> nl @ cross_mark @ '' Fatal Error: '' @ msg"
  by (auto simp: first_failing_message_def api_key_message_def output_dir_message_def
      prompt_message_def nl_def cross_mark_def split: if_splits)

lemma indented_line_not_fatal:
  "take 3 l = ''   '' \<Longrightarrow> l \<noteq> nl @ cross_mark @ '' Fatal Error: '' @ msg"
  by (auto simp: nl_def cross_mark_def)

text \<open>
  C10. When validation fails, or when the generation phase is reached and fewer images
  succeed than were requested, \<open>main\<close> raises \<open>SystemExit(1)\<close>; the handler of the
  script lets it pass: the process ends with status 1 in the very state \<open>main\<close> left,
  and no line the run added to the error stream is a Fatal Error line.
\<close>

theorem system_exit_passes_the_handler:
  assumes "falsy (API_KEY cfg) \<or> falsy (OUTPUT_DIR cfg) \<or> length argv < 2 \<or>
           (fst (preparation cfg argv e w) = Inr (prompt, d) \<and>
            successes (phase_results cfg e prompt d (snd (preparation cfg argv e w)))
              < IMAGE_COUNT cfg)"
  shows "fst (main cfg argv e w) = Inl (SystemExit 1) \<and>
         script cfg argv e w = (1, snd (main cfg argv e w)) \<and>
         (\<exists>ls. stderr (snd (script cfg argv e w)) = stderr w @ ls \<and>
               (\<forall>l \<in> set ls. \<forall>msg. l \<noteq> nl @ cross_mark @ '' Fatal Error: '' @ msg))"
proof (cases "falsy (API_KEY cfg) \<or> falsy (OUTPUT_DIR cfg) \<or> length argv < 2")
  case True
  have m: "fst (main cfg argv e w) = Inl (SystemExit 1)"
    by (simp add: main_def preparation_invalid [OF True])
  have "stderr (snd (script cfg argv e w)) = stderr w @ first_failing_message cfg"
    by (simp add: script_invalid [OF True])
  then have "\<exists>ls. stderr (snd (script cfg argv e w)) = stderr w @ ls \<and>
               (\<forall>l \<in> set ls. \<forall>msg. l \<noteq> nl @ cross_mark @ '' Fatal Error: '' @ msg)"
    using first_failing_message_lines by blast
  with m script_of_main(1) [OF m] show ?thesis by simp
next
  case False
  with assms have prep: "fst (preparation cfg argv e w) = Inr (prompt, d)"
    and short: "successes (phase_results cfg e prompt d (snd (preparation cfg argv e w)))
                  < IMAGE_COUNT cfg"
    by auto
  let ?w1 = "snd (preparation cfg argv e w)"
  note p = preparation_ok [OF preparation_pair [OF prep]]
  have m: "fst (main cfg argv e w) = Inl (SystemExit 1)"
    by (simp add: main_after_preparation [OF prep] generation_phase_result short)
  obtain ls where ls: "stderr (after_loop cfg e prompt d ?w1) = stderr ?w1 @ ls"
    "\<forall>l \<in> set ls. take 3 l = ''   ''"
    using after_loop_stderr by blast
  have "stderr (snd (script cfg argv e w)) = stderr w @ ls"
    by (simp add: script_after_preparation(2) [OF prep] generation_phase_fields ls(1) p(5))
  then have "\<exists>ls. stderr (snd (script cfg argv e w)) = stderr w @ ls \<and>
               (\<forall>l \<in> set ls. \<forall>msg. l \<noteq> nl @ cross_mark @ '' Fatal Error: '' @ msg)"
    using ls(2) indented_line_not_fatal by blast
  with m script_of_main(1) [OF m] show ?thesis by simp
qed

theorem system_exit_witness:
  "fst (preparation sample_config sample_argv text_only_env empty_world) =
     Inr (''a cat'', [''out'', ''2026-01-02T03-04-05'']) \<and>
   successes (phase_results sample_config text_only_env ''a cat'' [''out'', ''2026-01-02T03-04-05'']
     (snd (preparation sample_config sample_argv text_only_env empty_world)))
     < IMAGE_COUNT sample_config \<and>
   script sample_config sample_argv text_only_env empty_world =
     (1, snd (main sample_config sample_argv text_only_env empty_world))"
proof -
  have h: "fst (preparation sample_config sample_argv text_only_env empty_world) =
     Inr (''a cat'', [''out'', ''2026-01-02T03-04-05''])"
    by code_simp
  have s: "successes (phase_results sample_config text_only_env ''a cat''
      [''out'', ''2026-01-02T03-04-05'']
      (snd (preparation sample_config sample_argv text_only_env empty_world)))
     < IMAGE_COUNT sample_config"
    by code_simp
  from system_exit_passes_the_handler
    [of sample_config sample_argv text_only_env empty_world "''a cat''"
      "[''out'', ''2026-01-02T03-04-05'']"] h s
  show ?thesis by simp
qed

section \<open>One call of \<open>generate_image\<close>\<close>

lemma written_fields [simp]:
  "fs (written i d b w) = (fs w)(image_path d i \<mapsto> BinaryFile b)"
  "stderr (written i d b w) = stderr w"
  "events (written i d b w) = events w @ [ApiRequest i, ApiDone i, WriteFile (image_path d i)]"
  "requests (written i d b w) = Suc (requests w)"
  "clock_reads (written i d b w) = clock_reads w"
  "stdout (written i d b w) = stdout w @ [''   Processing image '' @ str_int i @ ''...'']"
  by (simp_all add: written_def)

lemma generate_image_try_answered:
  assumes "\<not> falsy (API_KEY cfg)"
  shows "generate_image_try cfg (Answered x) fault prompt i d w =
     (case answer_image x of
        Inl ex \<Rightarrow> (Inl ex, requested i w)
      | Inr b \<Rightarrow>
          if \<not> can_write (fs w) (image_path d i)
          then (Inl (open_error (fs w) (image_path d i)), requested i w)
          else (case fault of
                  None \<Rightarrow> (Inr (path_str (image_path d i)), succeeded i d b w)
                | Some k \<Rightarrow> (Inl (Exception device_message), written i d (take k b) w)))"
  using assms
  by (simp add: generate_image_try_def Let_def answer_image_def scan_parts_first_inline
      requested_def succeeded_def written_def write_bytes_def print_out_def
      split: api_outcome.splits sum.splits option.splits)

lemma generate_image_without_key:
  "falsy (API_KEY cfg) \<Longrightarrow>
   generate_image cfg a fault prompt i d w =
     (Inr None, print_err (failure_line i missing_key_message) w)"
  by (simp add: generate_image_def generate_image_try_def failure_line_def)



lemma generate_image_written:
  assumes "\<not> falsy (API_KEY cfg)" "answer_image x = Inr b"
    "can_write (fs w) (image_path d i)"
  shows "generate_image cfg (Answered x) None prompt i d w =
           (Inr (Some (path_str (image_path d i))), succeeded i d b w)"
    "generate_image cfg (Answered x) (Some k) prompt i d w =
           (Inr None, print_err (failure_line i device_message) (written i d (take k b) w))"
  by (simp_all add: generate_image_def generate_image_try_answered [OF assms(1)] assms(2,3)
      failure_line_def)






section \<open>The results of a batch\<close>



lemma attempt_results_nth:
  "k < length is \<Longrightarrow> attempt_results cfg e prompt d is w ! k = Some s \<Longrightarrow>
   s = path_str (image_path d (is ! k)) \<and>
   (\<exists>b. fs (snd (generate_all cfg e prompt d is acc w)) (image_path d (is ! k)) =
          Some (BinaryFile b))"
proof (induction "is" arbitrary: k acc w)
  case Nil
  then show ?case by simp
next
  case (Cons i rest)
  show ?case
  proof (cases k)
    case 0
    with Cons.prems(2) have r: "attempt_result cfg e i d w = Some s"
      by (simp add: attempt_results_Cons del: attempt_results.simps(2))
    then obtain b where b: "generation_outcome cfg e i d w = Inr b"
      "s = path_str (image_path d i)"
      by (auto simp: attempt_result_def split: sum.splits)
    then have "fs (after_attempt cfg e i d w) (image_path d i) = Some (BinaryFile b)"
      by (simp add: after_attempt_fs)
    from generate_all_keeps_binary [OF this] b(2) 0 show ?thesis
      by (simp add: generate_all_Cons del: generate_all.simps(2))
  next
    case (Suc j)
    with Cons.prems have "j < length rest"
      "attempt_results cfg e prompt d rest (after_attempt cfg e i d w) ! j = Some s"
      by (simp_all add: attempt_results_Cons del: attempt_results.simps(2))
    from Cons.IH [OF this] Suc show ?thesis
      by (simp add: generate_all_Cons del: generate_all.simps(2))
  qed
qed

lemma attempt_results_all_succeed:
  assumes "\<forall>k < length is. api_succeeds (api e (requests w + k))"
    and "lookup (fs w) d = Some Dir"
    and "\<forall>i \<in> set is. lookup (fs w) (image_path d i) \<noteq> Some Dir"
    and "\<not> falsy (API_KEY cfg)"
  shows "attempt_results cfg e prompt d is w = map (\<lambda>i. Some (path_str (image_path d i))) is"
  using assms
proof (induction "is" arbitrary: w)
  case Nil
  then show ?case by simp
next
  case (Cons i rest)
  from Cons.prems(1) have "api_succeeds (api e (requests w))" by force
  then obtain b where b: "answer_image (api e (requests w)) = Inr b"
    by (auto simp: api_succeeds_def split: sum.splits)
  have cw: "can_write (fs w) (image_path d i)"
    using Cons.prems(2,3) by (simp add: can_write_def image_path_def joinpath_def)
  from b cw have out: "generation_outcome cfg e i d w = Inr b"
    by (simp add: generation_outcome_def Cons.prems(4))
  let ?w = "after_attempt cfg e i d w"
  have fs: "fs ?w = (fs w)(image_path d i \<mapsto> BinaryFile b)"
    by (simp add: after_attempt_fs out)
  have 1: "\<forall>k < length rest. api_succeeds (api e (requests ?w + k))"
    using Cons.prems(1) by (auto simp: after_attempt_fields Cons.prems(4))
  have 2: "lookup (fs ?w) d = Some Dir"
    using Cons.prems(2) by (auto simp: fs lookup_def image_path_def joinpath_def split: if_splits)
  have 3: "\<forall>j \<in> set rest. lookup (fs ?w) (image_path d j) \<noteq> Some Dir"
    using Cons.prems(3) by (auto simp: fs lookup_def split: if_splits)
  from Cons.IH [OF 1 2 3 Cons.prems(4)] out show ?case
    by (simp add: attempt_results_Cons attempt_result_def del: attempt_results.simps(2))
qed




lemma phase_results_nth:
  assumes "k < nat (IMAGE_COUNT cfg)" "phase_results cfg e prompt d w ! k = Some s"
  shows "s = path_str (image_path d (1 + int k)) \<and>
         (\<exists>b. fs (after_loop cfg e prompt d w) (image_path d (1 + int k)) = Some (BinaryFile b))"
proof -
  from assms(1) have n: "[1..IMAGE_COUNT cfg] ! k = 1 + int k" by (simp add: nth_upto)
  from assms(1) have k: "k < length [1..IMAGE_COUNT cfg]" by simp
  from attempt_results_nth [OF k assms(2) [unfolded phase_results_def], of "[]"] n
  show ?thesis by (simp add: after_loop_def)
qed




section \<open>A batch in which every call succeeds\<close>

lemma image_filename_inj_on: "inj_on image_filename {1..n}"
  by (rule inj_onI) (simp add: image_filename_inj)

lemma image_path_in_image:
  "joinpath d name \<in> image_path d ` S \<longleftrightarrow> name \<in> image_filename ` S"
  by (auto simp: image_path_def joinpath_def)

lemma phase_results_all_succeed:
  assumes "\<forall>k < nat (IMAGE_COUNT cfg). api_succeeds (api e (requests w + k))"
    and "lookup (fs w) d = Some Dir"
    and "\<forall>i \<in> {1..IMAGE_COUNT cfg}. fs w (image_path d i) = None"
    and "\<not> falsy (API_KEY cfg)"
  shows "phase_results cfg e prompt d w =
           map (\<lambda>i. Some (path_str (image_path d i))) [1..IMAGE_COUNT cfg]"
proof -
  let ?w = "print_out (rocket_mark @ '' Starting image generation...'' @ nl) w"
  have 1: "\<forall>k < length [1..IMAGE_COUNT cfg]. api_succeeds (api e (requests ?w + k))"
    using assms(1) by simp
  have 2: "lookup (fs ?w) d = Some Dir" using assms(2) by simp
  have "lookup (fs w) (image_path d i) \<noteq> Some Dir" if "i \<in> {1..IMAGE_COUNT cfg}" for i
  proof -
    have "\<not> is_root (image_path d i)"
      by (auto simp: is_root_def image_path_def joinpath_def image_filename_def)
    with assms(3) that show ?thesis by (simp add: lookup_def)
  qed
  then have 3: "\<forall>i \<in> set [1..IMAGE_COUNT cfg]. lookup (fs ?w) (image_path d i) \<noteq> Some Dir"
    by simp
  from attempt_results_all_succeed [OF 1 2 3 assms(4)] show ?thesis
    by (simp add: phase_results_def)
qed

text \<open>
  C1, as amended. When a run reaches the generation phase, its session directory held
  no entry before the run, and each of the N answers of the image service carries an
  image, then the process ends with status 0 and the entries of the session directory
  are prompt.txt and the N distinct names image-01.png to image-NN.png, each of them an
  image file.
\<close>

theorem all_succeed_in_fresh_directory:
  assumes "fst (preparation cfg argv e w) = Inr (prompt, d)"
    and "entries (fs w) d = {}"
    and "\<forall>k < nat (IMAGE_COUNT cfg). api_succeeds (api e (requests w + k))"
  shows "fst (script cfg argv e w) = 0 \<and>
         entries (fs (snd (script cfg argv e w))) d =
           insert ''prompt.txt'' (image_filename ` {1..IMAGE_COUNT cfg}) \<and>
         card (image_filename ` {1..IMAGE_COUNT cfg}) = nat (IMAGE_COUNT cfg) \<and>
         ''prompt.txt'' \<notin> image_filename ` {1..IMAGE_COUNT cfg} \<and>
         (\<forall>i \<in> {1..IMAGE_COUNT cfg}.
            \<exists>b. fs (snd (script cfg argv e w)) (joinpath d (image_filename i)) =
                  Some (BinaryFile b))"
proof -
  let ?w1 = "snd (preparation cfg argv e w)"
  let ?n = "IMAGE_COUNT cfg"
  let ?wf = "snd (script cfg argv e w)"
  note p = preparation_ok [OF preparation_pair [OF assms(1)]]
  note sc = script_after_preparation [OF assms(1)]
  have fresh: "fs w (joinpath d name) = None" for name
    using assms(2) by (auto simp: entries_def)
  have fsf: "fs ?wf = fs (after_loop cfg e prompt d ?w1)"
    by (simp add: sc(2) generation_phase_fields)
  have none: "\<forall>i \<in> {1..?n}. fs ?w1 (image_path d i) = None"
    using p(11) fresh by (simp add: image_path_def image_filename_not_prompt)
  have req: "\<forall>k < nat ?n. api_succeeds (api e (requests ?w1 + k))"
    using assms(3) by (simp add: p(6))
  have rs: "phase_results cfg e prompt d ?w1 = map (\<lambda>i. Some (path_str (image_path d i))) [1..?n]"
    by (rule phase_results_all_succeed [OF req p(10) none p(2)])
  have "successes (phase_results cfg e prompt d ?w1) = int (nat ?n)"
    by (simp add: rs successes_def)
  then have code: "fst (script cfg argv e w) = 0" by (simp add: sc(1))
  have img: "\<exists>b. fs ?wf (joinpath d (image_filename i)) = Some (BinaryFile b)"
    if "i \<in> {1..?n}" for i
  proof -
    from that have k: "nat (i - 1) < nat ?n" "1 + int (nat (i - 1)) = i" by auto
    have "phase_results cfg e prompt d ?w1 ! nat (i - 1) = Some (path_str (image_path d i))"
      using k by (simp add: rs nth_upto)
    from phase_results_nth [OF k(1) this] k(2) show ?thesis by (simp add: fsf image_path_def)
  qed
  have notin: "''prompt.txt'' \<notin> image_filename ` {1..?n}"
    by (auto simp: image_filename_not_prompt [symmetric])
  then have pf: "joinpath d ''prompt.txt'' \<notin> image_path d ` {1..?n}"
    by (simp add: image_path_in_image)
  have prompt_there: "fs ?wf (joinpath d ''prompt.txt'') \<noteq> None"
    by (simp add: fsf after_loop_fs_frame [OF pf] p(9))
  have other: "fs ?wf (joinpath d name) = None"
    if "name \<noteq> ''prompt.txt''" "name \<notin> image_filename ` {1..?n}" for name
  proof -
    from that(2) have "joinpath d name \<notin> image_path d ` {1..?n}"
      by (simp add: image_path_in_image)
    then show ?thesis by (simp add: fsf after_loop_fs_frame p(11) [OF that(1)] fresh)
  qed
  have ent: "entries (fs ?wf) d = insert ''prompt.txt'' (image_filename ` {1..?n})"
  proof (rule set_eqI)
    fix name
    show "name \<in> entries (fs ?wf) d \<longleftrightarrow> name \<in> insert ''prompt.txt'' (image_filename ` {1..?n})"
    proof (cases "name = ''prompt.txt''")
      case True
      with prompt_there show ?thesis by (simp add: entries_def)
    next
      case False
      show ?thesis
      proof (cases "name \<in> image_filename ` {1..?n}")
        case True
        then obtain i where "i \<in> {1..?n}" "name = image_filename i" by blast
        with img [of i] have "fs ?wf (joinpath d name) \<noteq> None" by auto
        with True show ?thesis by (simp add: entries_def)
      next
        case no: False
        with other [OF False no] False show ?thesis by (simp add: entries_def)
      qed
    qed
  qed
  have cd: "card (image_filename ` {1..?n}) = nat ?n"
    by (simp add: card_image [OF image_filename_inj_on])
  have img': "\<forall>i \<in> {1..?n}.
      \<exists>b. fs ?wf (joinpath d (image_filename i)) = Some (BinaryFile b)"
    using img by blast
  show ?thesis by (intro conjI code ent cd notin img')
qed

theorem all_succeed_witness:
  "fst (preparation sample_config sample_argv sample_env empty_world) =
     Inr (''a cat'', [''out'', ''2026-01-02T03-04-05'']) \<and>
   entries (fs empty_world) [''out'', ''2026-01-02T03-04-05''] = {} \<and>
   api_succeeds (api sample_env 0) \<and> api_succeeds (api sample_env 1) \<and>
   fst (script sample_config sample_argv sample_env empty_world) = 0 \<and>
   entries (fs (snd (script sample_config sample_argv sample_env empty_world)))
     [''out'', ''2026-01-02T03-04-05''] =
   insert ''prompt.txt'' (image_filename ` {1..2})"
proof -
  have h: "fst (preparation sample_config sample_argv sample_env empty_world) =
     Inr (''a cat'', [''out'', ''2026-01-02T03-04-05''])"
    by code_simp
  have f: "entries (fs empty_world) [''out'', ''2026-01-02T03-04-05''] = {}"
    by (simp add: entries_def empty_world_def)
  have a: "api_succeeds (api sample_env k)" for k
    by (simp add: sample_env_def api_succeeds_def answer_image_def image_response_def
        response_parts_def image_buffer_def)
  have n: "IMAGE_COUNT sample_config = 2" by (simp add: sample_config_def)
  from all_succeed_in_fresh_directory [OF h f] a h f n show ?thesis by simp
qed

text \<open>
  C1 as stated fails where the session directory is already there with an entry of its
  own (the directory is made with \<open>exist_ok=True\<close> and never emptied): the one request
  succeeds and the status is 0, yet the directory holds image-02.png beside image-01.png
  and prompt.txt.
\<close>

theorem all_succeed_counterexample:
  "api_succeeds (api sample_env (requests stale_world)) \<and>
   fst (script one_image_config sample_argv sample_env stale_world) = 0 \<and>
   ''image-02.png'' \<in> entries (fs (snd (script one_image_config sample_argv sample_env stale_world)))
                       [''out'', ''2026-01-02T03-04-05''] \<and>
   ''image-02.png'' \<notin> insert ''prompt.txt'' (image_filename ` {1..IMAGE_COUNT one_image_config})"
proof -
  have a: "api_succeeds (api sample_env (requests stale_world))"
    by (simp add: sample_env_def api_succeeds_def answer_image_def image_response_def
        response_parts_def image_buffer_def)
  have c: "fst (script one_image_config sample_argv sample_env stale_world) = 0"
    by code_simp
  have f: "fs (snd (script one_image_config sample_argv sample_env stale_world))
             [''out'', ''2026-01-02T03-04-05'', ''image-02.png''] = Some (BinaryFile [9])"
    by code_simp
  have n: "image_filename 1 = ''image-01.png''" by code_simp
  have i: "IMAGE_COUNT one_image_config = 1"
    by (simp add: one_image_config_def default_config_def)
  from a c f n i show ?thesis by (simp add: entries_def joinpath_def)
qed

section \<open>The metadata file\<close>








section \<open>The name of the session directory\<close>

lemma replace_char_append:
  "replace_char a b (xs @ ys) = replace_char a b xs @ replace_char a b ys"
  by (simp add: replace_char_def)

lemma replace_char_digits:
  "\<forall>c \<in> set s. is_digit c \<Longrightarrow>
   replace_char (CHR ''.'') (CHR ''-'') (replace_char (CHR '':'') (CHR ''-'') s) = s"
  by (induction s) (auto simp: replace_char_def is_digit_def)

lemma replace_fmt_d:
  "replace_char (CHR ''.'') (CHR ''-'') (replace_char (CHR '':'') (CHR ''-'') (fmt_d k n)) =
     fmt_d k n"
  by (rule replace_char_digits) (rule fmt_d_digits)

lemma replace_char_Cons:
  "replace_char a b (c # s) = (if c = a then b else c) # replace_char a b s"
  by (simp add: replace_char_def)

lemma valid_datetime_lengths:
  assumes "valid_datetime t"
  shows "length (fmt_d 4 (year t)) = 4" "length (fmt_d 2 (month t)) = 2"
    "length (fmt_d 2 (day t)) = 2" "length (fmt_d 2 (hour t)) = 2"
    "length (fmt_d 2 (minute t)) = 2" "length (fmt_d 2 (second t)) = 2"
  using assms by (simp_all add: valid_datetime_def fmt_d_length)

lemma second_stamp_length: "valid_datetime t \<Longrightarrow> length (second_stamp t) = 19"
  by (simp add: second_stamp_def valid_datetime_lengths)

lemma session_name_second_stamp:
  assumes "valid_datetime t"
  shows "session_name t = second_stamp t"
proof -
  let ?r = "\<lambda>s. replace_char (CHR ''.'') (CHR ''-'') (replace_char (CHR '':'') (CHR ''-'') s)"
  have "?r (isoformat t) =
      second_stamp t @ ?r (if microsecond t = 0 then [] else ''.'' @ fmt_d 6 (microsecond t))"
    unfolding isoformat_def second_stamp_def
    by (simp only: replace_char_append replace_fmt_d append_assoc)
       (simp add: replace_char_def)
  then show ?thesis
    by (simp add: session_name_def second_stamp_length [OF assms])
qed

lemma fmt_d_inj: "fmt_d k a = fmt_d k b \<Longrightarrow> a = b"
  by (metis fmt_d_value)

lemma second_stamp_inj:
  assumes "valid_datetime t1" "valid_datetime t2" "second_stamp t1 = second_stamp t2"
  shows "year t1 = year t2 \<and> month t1 = month t2 \<and> day t1 = day t2 \<and>
         hour t1 = hour t2 \<and> minute t1 = minute t2 \<and> second t1 = second t2"
proof -
  note l1 = valid_datetime_lengths [OF assms(1)]
  note l2 = valid_datetime_lengths [OF assms(2)]
  from assms(3) have "fmt_d 4 (year t1) = fmt_d 4 (year t2) \<and>
      fmt_d 2 (month t1) = fmt_d 2 (month t2) \<and> fmt_d 2 (day t1) = fmt_d 2 (day t2) \<and>
      fmt_d 2 (hour t1) = fmt_d 2 (hour t2) \<and> fmt_d 2 (minute t1) = fmt_d 2 (minute t2) \<and>
      fmt_d 2 (second t1) = fmt_d 2 (second t2)"
    unfolding second_stamp_def by (simp add: append_eq_append_conv l1 l2)
  then show ?thesis by (auto dest: fmt_d_inj)
qed

lemma same_second_close:
  assumes "valid_datetime t1" "valid_datetime t2"
    and "year t1 = year t2 \<and> month t1 = month t2 \<and> day t1 = day t2 \<and>
         hour t1 = hour t2 \<and> minute t1 = minute t2 \<and> second t1 = second t2"
  shows "\<bar>microseconds_of t1 - microseconds_of t2\<bar> < 1000000"
proof -
  from assms(1,2) have "microsecond t1 < 1000000" "microsecond t2 < 1000000"
    by (simp_all add: valid_datetime_def)
  moreover from assms(3) have "microseconds_of t1 - microseconds_of t2 =
      int (microsecond t1) - int (microsecond t2)"
    by (simp add: microseconds_of_def toordinal_def)
  ultimately show ?thesis by linarith
qed

section \<open>The output directory\<close>

lemma ensure_output_directory_existing:
  "OUTPUT_DIR cfg = Some out \<Longrightarrow> exists_path (fs w) (Path out) \<Longrightarrow>
   ensure_output_directory cfg w = (Inr (), w)"
  by (simp add: ensure_output_directory_def output_path_of_def)

lemma ensure_output_directory_exists_after:
  assumes "ensure_output_directory cfg w = (Inr (), w')"
  shows "\<exists>out. OUTPUT_DIR cfg = Some out \<and> exists_path (fs w') (Path out)"
proof -
  from assms obtain out where out: "OUTPUT_DIR cfg = Some out"
    by (auto simp: ensure_output_directory_def output_path_of_def split: option.splits)
  show ?thesis
  proof (cases "exists_path (fs w) (Path out)")
    case True
    with assms out show ?thesis by (simp add: ensure_output_directory_existing)
  next
    case False
    then have ne: "Path out \<noteq> []" by (auto simp: exists_path_def lookup_def is_root_def)
    from assms out False obtain f' where f': "mkdir_from [] (Path out) (fs w) = Inr f'"
      "fs w' = f'"
      by (auto simp: ensure_output_directory_def output_path_of_def mkdir_parents_def
          split: sum.splits)
    from mkdir_from_makes_Dir [OF f'(1) ne] f'(2) out show ?thesis
      by (simp add: exists_path_def)
  qed
qed

lemma create_timestamped_directory_named:
  assumes "fst (create_timestamped_directory cfg e w) = Inr d"
    and "valid_datetime (now e (clock_reads w))"
  shows "\<exists>out. OUTPUT_DIR cfg = Some out \<and>
               d = joinpath (Path out) (second_stamp (now e (clock_reads w)))"
    "lookup (fs (snd (create_timestamped_directory cfg e w))) d = Some Dir"
    "last d = second_stamp (now e (clock_reads w))"
proof -
  from assms(1) have c: "create_timestamped_directory cfg e w =
      (Inr d, snd (create_timestamped_directory cfg e w))"
    by (cases "create_timestamped_directory cfg e w") simp
  from create_timestamped_directory_ok(6) [OF c] assms(2)
  show 1: "\<exists>out. OUTPUT_DIR cfg = Some out \<and>
                  d = joinpath (Path out) (second_stamp (now e (clock_reads w)))"
    by (simp add: session_name_second_stamp)
  from create_timestamped_directory_ok(7) [OF c]
  show "lookup (fs (snd (create_timestamped_directory cfg e w))) d = Some Dir" .
  from 1 show "last d = second_stamp (now e (clock_reads w))"
    by (auto simp: joinpath_def)
qed

text \<open>
  C7, as amended. The session directory that \<open>create_timestamped_directory\<close> makes, and
  a run works in, is named after the reading of the local clock it takes
  (\<open>datetime.now()\<close>), cut to the second, with hyphens for the colons: it is that name
  under the output directory, and it is a directory when the call returns. Two calls
  whose readings are more than a second apart make different directories.
  \<open>ensure_output_directory\<close> on a base directory that is there returns without error and
  leaves the state as it is; so a second call after a first one that returned changes
  nothing.
\<close>

theorem session_directory_named_by_local_clock:
  assumes "fst (create_timestamped_directory cfg1 e1 w1) = Inr d1"
    and "fst (create_timestamped_directory cfg2 e2 w2) = Inr d2"
    and "valid_datetime (now e1 (clock_reads w1))"
    and "valid_datetime (now e2 (clock_reads w2))"
  shows "(\<exists>out. OUTPUT_DIR cfg1 = Some out \<and>
                d1 = joinpath (Path out) (second_stamp (now e1 (clock_reads w1)))) \<and>
         session_name (now e1 (clock_reads w1)) = second_stamp (now e1 (clock_reads w1)) \<and>
         lookup (fs (snd (create_timestamped_directory cfg1 e1 w1))) d1 = Some Dir \<and>
         (1000000 < \<bar>microseconds_of (now e1 (clock_reads w1)) -
                     microseconds_of (now e2 (clock_reads w2))\<bar> \<longrightarrow>
            d1 \<noteq> d2) \<and>
         (\<forall>argv prompt d. fst (preparation cfg1 argv e1 w1) = Inr (prompt, d) \<longrightarrow> d = d1) \<and>
         (\<forall>cfg w out. OUTPUT_DIR cfg = Some out \<and> exists_path (fs w) (Path out) \<longrightarrow>
            ensure_output_directory cfg w = (Inr (), w)) \<and>
         (\<forall>cfg w w'. ensure_output_directory cfg w = (Inr (), w') \<longrightarrow>
            ensure_output_directory cfg w' = (Inr (), w'))"
proof -
  note n1 = create_timestamped_directory_named [OF assms(1,3)]
  note n2 = create_timestamped_directory_named [OF assms(2,4)]
  show ?thesis
  proof (intro conjI allI impI)
    show "\<exists>out. OUTPUT_DIR cfg1 = Some out \<and>
                d1 = joinpath (Path out) (second_stamp (now e1 (clock_reads w1)))"
      by (rule n1(1))
    show "session_name (now e1 (clock_reads w1)) = second_stamp (now e1 (clock_reads w1))"
      by (rule session_name_second_stamp [OF assms(3)])
    show "lookup (fs (snd (create_timestamped_directory cfg1 e1 w1))) d1 = Some Dir"
      by (rule n1(2))
  next
    assume far: "1000000 < \<bar>microseconds_of (now e1 (clock_reads w1)) -
                             microseconds_of (now e2 (clock_reads w2))\<bar>"
    show "d1 \<noteq> d2"
    proof
      assume "d1 = d2"
      with n1(3) n2(3)
      have "second_stamp (now e1 (clock_reads w1)) = second_stamp (now e2 (clock_reads w2))"
        by simp
      from same_second_close [OF assms(3,4) second_stamp_inj [OF assms(3,4) this]] far
      show False by simp
    qed
  next
    fix argv prompt d
    assume "fst (preparation cfg1 argv e1 w1) = Inr (prompt, d)"
    note p = preparation_ok [OF preparation_pair [OF this]]
    from n1(1) obtain out where out: "OUTPUT_DIR cfg1 = Some out"
      "d1 = joinpath (Path out) (second_stamp (now e1 (clock_reads w1)))"
      by blast
    from p(8) [OF out(1)] out(2) assms(3) show "d = d1"
      by (simp add: session_name_second_stamp)
  next
    fix cfg :: config and w :: world and out
    assume "OUTPUT_DIR cfg = Some out \<and> exists_path (fs w) (Path out)"
    then show "ensure_output_directory cfg w = (Inr (), w)"
      by (simp add: ensure_output_directory_existing)
  next
    fix cfg :: config and w w' :: world
    assume "ensure_output_directory cfg w = (Inr (), w')"
    from ensure_output_directory_exists_after [OF this]
    show "ensure_output_directory cfg w' = (Inr (), w')"
      by (auto simp: ensure_output_directory_existing)
  qed
qed

theorem session_directory_witness:
  "fst (create_timestamped_directory one_image_config sample_env empty_world) =
     Inr [''out'', ''2026-01-02T03-04-05''] \<and>
   fst (create_timestamped_directory one_image_config later_env empty_world) =
     Inr [''out'', ''2026-01-02T03-04-07''] \<and>
   valid_datetime (now sample_env (clock_reads empty_world)) \<and>
   valid_datetime (now later_env (clock_reads empty_world)) \<and>
   1000000 < \<bar>microseconds_of (now sample_env (clock_reads empty_world)) -
               microseconds_of (now later_env (clock_reads empty_world))\<bar> \<and>
   [''out'', ''2026-01-02T03-04-05''] \<noteq> [''out'', ''2026-01-02T03-04-07''] \<and>
   lookup (fs (snd (create_timestamped_directory one_image_config sample_env empty_world)))
     [''out'', ''2026-01-02T03-04-05''] = Some Dir"
proof -
  have h1: "fst (create_timestamped_directory one_image_config sample_env empty_world) =
      Inr [''out'', ''2026-01-02T03-04-05'']"
    by code_simp
  have h2: "fst (create_timestamped_directory one_image_config later_env empty_world) =
      Inr [''out'', ''2026-01-02T03-04-07'']"
    by code_simp
  have v: "valid_datetime (now sample_env (clock_reads empty_world))"
    "valid_datetime (now later_env (clock_reads empty_world))"
    by (simp_all add: valid_datetime_def sample_env_def later_env_def sample_time_def
        later_time_def)
  have m: "1000000 < \<bar>microseconds_of (now sample_env (clock_reads empty_world)) -
                       microseconds_of (now later_env (clock_reads empty_world))\<bar>"
    by (simp add: microseconds_of_def toordinal_def sample_env_def later_env_def
        sample_time_def later_time_def)
  note t = session_directory_named_by_local_clock [OF h1 h2 v]
  from t m have ne: "[''out'', ''2026-01-02T03-04-05''] \<noteq> [''out'', ''2026-01-02T03-04-07'']"
    by blast
  from t have dir:
    "lookup (fs (snd (create_timestamped_directory one_image_config sample_env empty_world)))
       [''out'', ''2026-01-02T03-04-05''] = Some Dir"
    by blast
  show ?thesis by (intro conjI h1 h2 v m ne dir)
qed

text \<open>
  C7 as it stands measures the distance between two runs in time, and the name comes
  from the local clock, which repeats an hour when summer time ends. On 25 October 2026
  in central Europe the clock reads 02:30:00 twice, 3600 seconds apart: two runs started
  at these two instants work in the same session directory.
\<close>

theorem session_directory_counterexample:
  "instant winter_env (clock_reads empty_world) -
     instant summer_env (clock_reads empty_world) = 3600 * 1000000 \<and>
   fst (create_timestamped_directory one_image_config summer_env empty_world) =
     Inr [''out'', ''2026-10-25T02-30-00''] \<and>
   fst (create_timestamped_directory one_image_config winter_env empty_world) =
     Inr [''out'', ''2026-10-25T02-30-00'']"
  by code_simp

section \<open>The two forms of an image\<close>

lemma mask_6: "(v::byte) AND 0x3f = take_bit 6 v"
  by (simp add: take_bit_eq_mask mask_numeral)

lemma mask_4: "(v::byte) AND 0x0f = take_bit 4 v"
  by (simp add: take_bit_eq_mask mask_numeral)

lemma mask_2: "(v::byte) AND 0x03 = take_bit 2 v"
  by (simp add: take_bit_eq_mask mask_numeral)

lemma byte_eqI:
  fixes a b :: byte
  assumes "bit a 0 = bit b 0" "bit a 1 = bit b 1" "bit a 2 = bit b 2" "bit a 3 = bit b 3"
    "bit a 4 = bit b 4" "bit a 5 = bit b 5" "bit a 6 = bit b 6" "bit a 7 = bit b 7"
  shows "a = b"
proof (rule bit_word_eqI)
  fix n
  assume "n < LENGTH(8)"
  then have "n < 8" by simp
  then consider "n = 0" | "n = 1" | "n = 2" | "n = 3" | "n = 4" | "n = 5" | "n = 6" | "n = 7"
    by arith
  then show "bit a n = bit b n" using assms by cases simp_all
qed

lemma bytes_of_quad:
  fixes a b c :: byte
  shows "[push_bit 2 (take_bit 6 (drop_bit 2 a)) OR
          drop_bit 4 (take_bit 6 (push_bit 4 (a AND 0x03) OR drop_bit 4 b)),
          push_bit 4 (take_bit 6 (push_bit 4 (a AND 0x03) OR drop_bit 4 b) AND 0x0f) OR
          drop_bit 2 (take_bit 6 (push_bit 2 (b AND 0x0f) OR drop_bit 6 c)),
          push_bit 6 (take_bit 6 (push_bit 2 (b AND 0x0f) OR drop_bit 6 c) AND 0x03) OR
          take_bit 6 (c AND 0x3f)] = [a, b, c]"
proof -
  have "push_bit 2 (take_bit 6 (drop_bit 2 a)) OR
        drop_bit 4 (take_bit 6 (push_bit 4 (a AND 0x03) OR drop_bit 4 b)) = a"
    unfolding mask_2 by (rule byte_eqI) (auto simp: bit_simps dest: bit_imp_le_length)
  moreover
  have "push_bit 4 (take_bit 6 (push_bit 4 (a AND 0x03) OR drop_bit 4 b) AND 0x0f) OR
        drop_bit 2 (take_bit 6 (push_bit 2 (b AND 0x0f) OR drop_bit 6 c)) = b"
    unfolding mask_2 mask_4 by (rule byte_eqI) (auto simp: bit_simps dest: bit_imp_le_length)
  moreover
  have "push_bit 6 (take_bit 6 (push_bit 2 (b AND 0x0f) OR drop_bit 6 c) AND 0x03) OR
        take_bit 6 (c AND 0x3f) = c"
    unfolding mask_2 mask_4 mask_6
    by (rule byte_eqI) (auto simp: bit_simps dest: bit_imp_le_length)
  ultimately show ?thesis by (simp only:)
qed

lemma bytes_of_pair:
  fixes a b :: byte
  shows "[push_bit 2 (take_bit 6 (drop_bit 2 a)) OR
          drop_bit 4 (take_bit 6 (push_bit 4 (a AND 0x03) OR drop_bit 4 b)),
          push_bit 4 (take_bit 6 (push_bit 4 (a AND 0x03) OR drop_bit 4 b) AND 0x0f) OR
          drop_bit 2 (take_bit 6 (push_bit 2 (b AND 0x0f)))] = [a, b]"
proof -
  have "push_bit 2 (take_bit 6 (drop_bit 2 a)) OR
        drop_bit 4 (take_bit 6 (push_bit 4 (a AND 0x03) OR drop_bit 4 b)) = a"
    unfolding mask_2 by (rule byte_eqI) (auto simp: bit_simps dest: bit_imp_le_length)
  moreover
  have "push_bit 4 (take_bit 6 (push_bit 4 (a AND 0x03) OR drop_bit 4 b) AND 0x0f) OR
        drop_bit 2 (take_bit 6 (push_bit 2 (b AND 0x0f))) = b"
    unfolding mask_2 mask_4 by (rule byte_eqI) (auto simp: bit_simps dest: bit_imp_le_length)
  ultimately show ?thesis by (simp only:)
qed

lemma byte_of_single:
  fixes a :: byte
  shows "push_bit 2 (take_bit 6 (drop_bit 2 a)) OR
         drop_bit 4 (take_bit 6 (push_bit 4 (a AND 0x03))) = a"
  unfolding mask_2 by (rule byte_eqI) (auto simp: bit_simps dest: bit_imp_le_length)

lemma table_b2a_base64_inverse:
  "list_all (\<lambda>n. table_a2b_base64 (table_b2a_base64 ! n) = Some (of_nat n)) [0..<64]"
  by (simp add: upt_rec table_b2a_base64_def table_a2b_base64_def Let_def)

lemma table_b2a_base64_plain:
  "list_all (\<lambda>c. (of_char c :: nat) < 128 \<and> c \<noteq> CHR ''='') table_b2a_base64"
  by code_simp

lemma length_table_b2a_base64: "length table_b2a_base64 = 64"
  by (simp add: table_b2a_base64_def)

lemma unat_sextet: "unat (take_bit 6 (v::byte)) < 64"
proof -
  have "unat (take_bit 6 v) = take_bit 6 (unat v)" by (simp add: unsigned_take_bit_eq)
  also have "\<dots> < 2 ^ 6" by (rule take_bit_nat_less_exp)
  finally show ?thesis by simp
qed

lemma b64_char_value: "table_a2b_base64 (b64_char v) = Some (take_bit 6 v)"
proof -
  from table_b2a_base64_inverse unat_sextet [of v]
  have "table_a2b_base64 (table_b2a_base64 ! unat (take_bit 6 v)) =
      Some (of_nat (unat (take_bit 6 v)))"
    by (simp add: list_all_iff)
  then show ?thesis by (simp add: b64_char_def mask_6)
qed

lemma b64_char_plain: "b64_char v \<noteq> CHR ''=''" "(of_char (b64_char v) :: nat) < 128"
proof -
  have "b64_char v \<in> set table_b2a_base64"
    unfolding b64_char_def mask_6
    by (rule nth_mem) (simp add: length_table_b2a_base64 unat_sextet)
  with table_b2a_base64_plain show "b64_char v \<noteq> CHR ''=''" "(of_char (b64_char v) :: nat) < 128"
    by (auto simp: list_all_iff)
qed

lemma a2b_base64_quad:
  "a2b_base64 ([b64_char x1, b64_char x2, b64_char x3, b64_char x4] @ rest) 0 l p out =
     a2b_base64 rest 0 0 0
       (out @ [push_bit 2 (take_bit 6 x1) OR drop_bit 4 (take_bit 6 x2),
               push_bit 4 (take_bit 6 x2 AND 0x0f) OR drop_bit 2 (take_bit 6 x3),
               push_bit 6 (take_bit 6 x3 AND 0x03) OR take_bit 6 x4])"
  by (simp add: b64_char_value b64_char_plain)

lemma a2b_base64_pair:
  "a2b_base64 [b64_char x1, b64_char x2, b64_char x3, CHR ''=''] 0 l p out =
     Inr (out @ [push_bit 2 (take_bit 6 x1) OR drop_bit 4 (take_bit 6 x2),
                 push_bit 4 (take_bit 6 x2 AND 0x0f) OR drop_bit 2 (take_bit 6 x3)])"
  by (simp add: b64_char_value b64_char_plain)

lemma a2b_base64_single:
  "a2b_base64 [b64_char x1, b64_char x2, CHR ''='', CHR ''=''] 0 l p out =
     Inr (out @ [push_bit 2 (take_bit 6 x1) OR drop_bit 4 (take_bit 6 x2)])"
  by (simp add: b64_char_value b64_char_plain)

lemma a2b_base64_b64encode: "a2b_base64 (b64encode bs) 0 l p out = Inr (out @ bs)"
proof (induction bs arbitrary: l p out rule: b64encode.induct)
  case 1
  show ?case by simp
next
  case (2 a)
  show ?case unfolding b64encode.simps a2b_base64_single byte_of_single ..
next
  case (3 a b)
  show ?case unfolding b64encode.simps a2b_base64_pair bytes_of_pair ..
next
  case (4 a b c rest)
  show ?case unfolding b64encode.simps a2b_base64_quad bytes_of_quad
    by (simp add: 4)
qed

lemma b64encode_ascii: "c \<in> set (b64encode bs) \<Longrightarrow> (of_char c :: nat) < 128"
  by (induction bs rule: b64encode.induct) (auto simp: b64_char_plain)

lemma b64decode_b64encode: "b64decode (b64encode bs) = Inr bs"
proof -
  have "\<not> (\<exists>c \<in> set (b64encode bs). 128 \<le> (of_char c :: nat))"
    by (auto dest: b64encode_ascii)
  then show ?thesis
    by (simp add: b64decode_def a2b_base64_b64encode [of bs 0 0 "[]", simplified])
qed

text \<open>
  C5. When the first inline payload of a response is the image as bytes, the bytes are
  what \<open>generate_image\<close> uses, and when it is the base64 text of the same bytes,
  decoding gives these bytes back. So the call does the same on the two responses, in
  every state and whatever happens to the write; and when it can write, the image file
  holds exactly the bytes of the image for both.
\<close>

theorem image_file_same_for_bytes_and_base64:
  assumes "response_parts r = Inr ps" "first_inline ps = Some (DataBytes b)"
    and "response_parts r' = Inr ps'" "first_inline ps' = Some (DataStr (b64encode b))"
  shows "image_buffer (DataBytes b) = Inr b \<and>
         image_buffer (DataStr (b64encode b)) = Inr b \<and>
         generate_image cfg (Answered (ApiReturns r')) fault prompt i d w =
           generate_image cfg (Answered (ApiReturns r)) fault prompt i d w \<and>
         (\<not> falsy (API_KEY cfg) \<and> can_write (fs w) (image_path d i) \<longrightarrow>
            fst (generate_image cfg (Answered (ApiReturns r)) None prompt i d w) =
              Inr (Some (path_str (image_path d i))) \<and>
            fs (snd (generate_image cfg (Answered (ApiReturns r)) None prompt i d w))
              (image_path d i) = Some (BinaryFile b) \<and>
            fs (snd (generate_image cfg (Answered (ApiReturns r')) None prompt i d w))
              (image_path d i) = Some (BinaryFile b))"
proof -
  have ib: "image_buffer (DataBytes b) = Inr b"
    "image_buffer (DataStr (b64encode b)) = Inr b"
    by (simp_all add: image_buffer_def b64decode_b64encode)
  have a: "answer_image (ApiReturns r) = Inr b" "answer_image (ApiReturns r') = Inr b"
    by (simp_all add: answer_image_def assms ib)
  have same: "generate_image cfg (Answered (ApiReturns r')) fault prompt i d w =
      generate_image cfg (Answered (ApiReturns r)) fault prompt i d w" for fault
  proof (cases "falsy (API_KEY cfg)")
    case True
    then show ?thesis by (simp add: generate_image_without_key)
  next
    case False
    then show ?thesis by (simp add: generate_image_def generate_image_try_answered a)
  qed
  have img: "fst (generate_image cfg (Answered (ApiReturns r)) None prompt i d w) =
        Inr (Some (path_str (image_path d i))) \<and>
      fs (snd (generate_image cfg (Answered (ApiReturns r)) None prompt i d w))
        (image_path d i) = Some (BinaryFile b)"
    if "\<not> falsy (API_KEY cfg)" "can_write (fs w) (image_path d i)"
    using generate_image_written(1) [OF that(1) a(1) that(2)] by simp
  from ib same img show ?thesis by (simp only:) simp
qed

theorem image_file_witness:
  "b64encode [1, 2, 3] = ''AQID'' \<and>
   generate_image sample_config (Answered (ApiReturns (image_response (DataStr ''AQID''))))
     None ''a cat'' 1 [] empty_world =
   generate_image sample_config (Answered (ApiReturns (image_response (DataBytes [1, 2, 3]))))
     None ''a cat'' 1 [] empty_world \<and>
   fs (snd (generate_image sample_config
              (Answered (ApiReturns (image_response (DataStr ''AQID''))))
              None ''a cat'' 1 [] empty_world)) [''image-01.png''] =
     Some (BinaryFile [1, 2, 3])"
proof -
  have enc: "b64encode [1, 2, 3] = ''AQID''"
    by code_simp
  have key: "\<not> falsy (API_KEY sample_config)"
    by (simp add: sample_config_def default_config_def falsy_def)
  have n: "image_path [] 1 = [''image-01.png'']"
    by code_simp
  have cw: "can_write (fs empty_world) (image_path [] 1)"
    by (simp add: n can_write_def lookup_def is_root_def empty_world_def)
  have r: "response_parts (image_response (DataBytes [1, 2, 3])) =
      Inr [Part None, Part (Some (DataBytes [1, 2, 3]))]"
    "response_parts (image_response (DataStr ''AQID'')) =
      Inr [Part None, Part (Some (DataStr ''AQID''))]"
    by (simp_all add: response_parts_def image_response_def)
  have f: "first_inline [Part None, Part (Some (DataBytes [1, 2, 3]))] =
      Some (DataBytes [1, 2, 3])"
    "first_inline [Part None, Part (Some (DataStr ''AQID''))] =
      Some (DataStr (b64encode [1, 2, 3]))"
    unfolding enc by simp_all
  note t = image_file_same_for_bytes_and_base64 [OF r(1) f(1) r(2) f(2)]
  from t [of sample_config None "''a cat''" 1 "[]" empty_world]
  have same: "generate_image sample_config
      (Answered (ApiReturns (image_response (DataStr ''AQID'')))) None ''a cat'' 1 []
      empty_world =
    generate_image sample_config
      (Answered (ApiReturns (image_response (DataBytes [1, 2, 3])))) None ''a cat'' 1 []
      empty_world"
    by blast
  from t [of sample_config None "''a cat''" 1 "[]" empty_world] key cw
  have img: "fs (snd (generate_image sample_config
      (Answered (ApiReturns (image_response (DataStr ''AQID''))))
      None ''a cat'' 1 [] empty_world)) (image_path [] 1) = Some (BinaryFile [1, 2, 3])"
    by blast
  show ?thesis by (intro conjI enc same) (use img in \<open>simp add: n\<close>)
qed

end
